theory Spec2Isabelle
  imports Complex_Main "HOL-Library.Multiset"
begin

section \<open>Numeric values\<close>

text \<open>
  The price panel holds floating-point columns in which an entry is either a number or
  the missing marker NaN: such an entry is a \<open>rat option\<close>, \<open>None\<close> being NaN.
  Values computed from these columns are floating-point numbers of type \<open>fl\<close>: NaN,
  the two infinities, the negative zero, or a rational (\<open>Fin 0\<close> is the positive zero).
  Every floating-point number is a rational, and comparisons of such numbers are exact.
\<close>

datatype fl = NaN | MInf | PInf | NegZero | Fin rat

fun of_column :: "rat option \<Rightarrow> fl" where
  "of_column None = NaN"
| "of_column (Some x) = Fin x"

definition is_inf :: "fl \<Rightarrow> bool" where
  "is_inf x = (x = PInf \<or> x = MInf)"

definition is_zero :: "fl \<Rightarrow> bool" where
  "is_zero x = (x = Fin 0 \<or> x = NegZero)"

text \<open>The sign bit, and the value of a finite number.\<close>

fun sign_bit :: "fl \<Rightarrow> bool" where
  "sign_bit MInf = True"
| "sign_bit NegZero = True"
| "sign_bit (Fin a) = (a < 0)"
| "sign_bit _ = False"

fun fval :: "fl \<Rightarrow> rat" where
  "fval (Fin a) = a"
| "fval _ = 0"

definition zero_of :: "bool \<Rightarrow> fl" where
  "zero_of negative = (if negative then NegZero else Fin 0)"

definition inf_of :: "bool \<Rightarrow> fl" where
  "inf_of negative = (if negative then MInf else PInf)"

fun fl_negate :: "fl \<Rightarrow> fl" where
  "fl_negate NaN = NaN"
| "fl_negate MInf = PInf"
| "fl_negate PInf = MInf"
| "fl_negate NegZero = Fin 0"
| "fl_negate (Fin a) = (if a = 0 then NegZero else Fin (- a))"

text \<open>
  The arithmetic of the array library follows IEEE 754: no operation raises, a division by
  zero gives an infinity or NaN, and a zero result carries a sign.  The rounding of an
  exact result that is not zero is the function \<open>rnd\<close>, a parameter: it gives the nearest
  floating-point number, which is an infinity on overflow and a zero on underflow.
  Adding a zero changes nothing, and two numbers that cancel give the positive zero.
\<close>

definition fl_add :: "(rat \<Rightarrow> fl) \<Rightarrow> fl \<Rightarrow> fl \<Rightarrow> fl" where
  "fl_add rnd a b =
     (if a = NaN \<or> b = NaN then NaN
      else if is_inf a \<and> is_inf b then (if a = b then a else NaN)
      else if is_inf a then a
      else if is_inf b then b
      else if is_zero a \<and> is_zero b then zero_of (sign_bit a \<and> sign_bit b)
      else if is_zero a then b
      else if is_zero b then a
      else if fval a + fval b = 0 then Fin 0
      else rnd (fval a + fval b))"

definition fl_sub :: "(rat \<Rightarrow> fl) \<Rightarrow> fl \<Rightarrow> fl \<Rightarrow> fl" where
  "fl_sub rnd a b = fl_add rnd a (fl_negate b)"

definition fl_mul :: "(rat \<Rightarrow> fl) \<Rightarrow> fl \<Rightarrow> fl \<Rightarrow> fl" where
  "fl_mul rnd a b =
     (if a = NaN \<or> b = NaN then NaN
      else if (is_inf a \<and> is_zero b) \<or> (is_zero a \<and> is_inf b) then NaN
      else if is_inf a \<or> is_inf b then inf_of (sign_bit a \<noteq> sign_bit b)
      else if is_zero a \<or> is_zero b then zero_of (sign_bit a \<noteq> sign_bit b)
      else rnd (fval a * fval b))"

definition fl_div :: "(rat \<Rightarrow> fl) \<Rightarrow> fl \<Rightarrow> fl \<Rightarrow> fl" where
  "fl_div rnd a b =
     (if a = NaN \<or> b = NaN then NaN
      else if (is_inf a \<and> is_inf b) \<or> (is_zero a \<and> is_zero b) then NaN
      else if is_inf a \<or> is_zero b then inf_of (sign_bit a \<noteq> sign_bit b)
      else if is_inf b \<or> is_zero a then zero_of (sign_bit a \<noteq> sign_bit b)
      else rnd (fval a / fval b))"

text \<open>
  Comparisons with NaN on either side are false; the two zeros are equal.
\<close>

fun fl_lt :: "fl \<Rightarrow> fl \<Rightarrow> bool" where
  "fl_lt NaN _ = False"
| "fl_lt _ NaN = False"
| "fl_lt _ MInf = False"
| "fl_lt MInf _ = True"
| "fl_lt PInf _ = False"
| "fl_lt _ PInf = True"
| "fl_lt a b = (fval a < fval b)"

definition fl_gt :: "fl \<Rightarrow> fl \<Rightarrow> bool" where
  "fl_gt a b = fl_lt b a"

fun nan_gt :: "rat option \<Rightarrow> rat option \<Rightarrow> bool" where
  "nan_gt (Some a) (Some b) = (b < a)"
| "nan_gt _ _ = False"

fun nan_lt :: "rat option \<Rightarrow> rat option \<Rightarrow> bool" where
  "nan_lt (Some a) (Some b) = (a < b)"
| "nan_lt _ _ = False"

section \<open>Series operations of the data-frame library\<close>

text \<open>\<open>Series.dropna()\<close>: the entries that are not NaN, in order.\<close>

definition dropna :: "rat option list \<Rightarrow> rat option list" where
  "dropna xs = filter (\<lambda>x. x \<noteq> None) xs"

text \<open>
  The rolling window of length \<open>w\<close> that ends at position \<open>i\<close>; it is shorter than
  \<open>w\<close> while fewer than \<open>w\<close> rows exist.  Its observations are the entries that are
  not NaN.
\<close>

definition window :: "nat \<Rightarrow> 'a list \<Rightarrow> nat \<Rightarrow> 'a list" where
  "window w xs i = drop (Suc i - w) (take (Suc i) xs)"

definition observations :: "fl list \<Rightarrow> fl list" where
  "observations ws = filter (\<lambda>x. x \<noteq> NaN) ws"

text \<open>
  The floating-point kernel of the data-frame library is a parameter: the rounding
  \<open>rnd\<close> of its arithmetic, and the values that its rolling sum and rolling mean give
  at the last row of a series when the window there has enough observations.  The
  library updates these values row by row, so a value depends on the rows before the
  window as well; it is a function of the window length and of the series up to that row.
\<close>

record float_library =
  rnd :: "rat \<Rightarrow> fl"
  rolling_sum_value :: "nat \<Rightarrow> fl list \<Rightarrow> fl"
  rolling_mean_value :: "nat \<Rightarrow> fl list \<Rightarrow> fl"

text \<open>
  \<open>rolling(w).sum()\<close> and \<open>rolling(w, min_periods=w).mean()\<close>: the result is NaN
  unless the window holds at least \<open>w\<close> observations; the mean of no observation is NaN
  as well.
\<close>

definition rolling_sum :: "float_library \<Rightarrow> nat \<Rightarrow> fl list \<Rightarrow> fl list" where
  "rolling_sum lib w xs =
     map (\<lambda>i. if w \<le> length (observations (window w xs i))
               then rolling_sum_value lib w (take (Suc i) xs) else NaN)
         [0..<length xs]"

definition rolling_mean :: "float_library \<Rightarrow> nat \<Rightarrow> fl list \<Rightarrow> fl list" where
  "rolling_mean lib w xs =
     map (\<lambda>i. if w \<le> length (observations (window w xs i))
                  \<and> 0 < length (observations (window w xs i))
               then rolling_mean_value lib w (take (Suc i) xs) else NaN)
         [0..<length xs]"

text \<open>\<open>SMAIndicator(close, window=w).sma_indicator()\<close> of the indicator library.\<close>

definition sma_indicator :: "float_library \<Rightarrow> nat \<Rightarrow> fl list \<Rightarrow> fl list" where
  "sma_indicator lib w close = rolling_mean lib w close"

text \<open>
  The kernel of exact arithmetic: nothing is rounded, and the rolling values are the
  exact sum and mean of the observations of the last window.  It agrees with the
  floating-point kernel wherever every exact result is a floating-point number and no
  negative zero occurs; the examples use it on such inputs.
\<close>

definition last_window :: "nat \<Rightarrow> fl list \<Rightarrow> rat list" where
  "last_window w xs = map fval (observations (window w xs (length xs - 1)))"

definition exact_library :: float_library where
  "exact_library =
     \<lparr>rnd = Fin,
      rolling_sum_value = (\<lambda>w xs. Fin (sum_list (last_window w xs))),
      rolling_mean_value =
        (\<lambda>w xs. Fin (sum_list (last_window w xs) / of_nat (length (last_window w xs))))\<rparr>"

datatype error = ValueError | ZeroDivisionError | LibraryError

text \<open>
  \<open>signals[(pair, 'signal')] = values\<close> with an array on the right: the frame has
  \<open>n\<close> rows, and an array of any other length is refused with a ValueError.
\<close>

definition set_column :: "nat \<Rightarrow> int list \<Rightarrow> error + int list" where
  "set_column n values = (if length values = n then Inr values else Inl ValueError)"

section \<open>Price panel\<close>

record bar =
  b_open :: "rat option"
  b_high :: "rat option"
  b_low :: "rat option"
  b_close :: "rat option"
  b_volume :: "rat option"

text \<open>
  One asset of the panel is the list of its bars, one per row of the shared time index;
  the panel is the list of its pairs, in column order.
\<close>

type_synonym price_data = "(string \<times> bar list) list"

text \<open>
  The loop \<open>for pair in self.pairs\<close> of the three signal generators: the first
  exception leaves the loop and the method.
\<close>

fun for_pairs :: "(bar list \<Rightarrow> error + int list) \<Rightarrow> price_data
    \<Rightarrow> error + (string \<times> int list) list" where
  "for_pairs f [] = Inr []"
| "for_pairs f ((pair, bars) # rest) =
     (case f bars of
        Inl e \<Rightarrow> Inl e
      | Inr col \<Rightarrow>
          (case for_pairs f rest of
             Inl e \<Rightarrow> Inl e
           | Inr cols \<Rightarrow> Inr ((pair, col) # cols)))"

section \<open>Signal generators\<close>

subsection \<open>SMA crossover\<close>

text \<open>\<open>np.where(fast > slow, 1, np.where(fast < slow, -1, 0))\<close>, one element.\<close>

definition crossover_signal :: "fl \<Rightarrow> fl \<Rightarrow> int" where
  "crossover_signal fast slow =
     (if fl_gt fast slow then 1 else if fl_lt fast slow then - 1 else 0)"

definition sma_signals_pair :: "float_library \<Rightarrow> nat \<Rightarrow> nat \<Rightarrow> bar list
    \<Rightarrow> error + int list" where
  "sma_signals_pair lib fast_window slow_window bars =
     (let close = map of_column (dropna (map b_close bars));
          fast_sma = sma_indicator lib fast_window close;
          slow_sma = sma_indicator lib slow_window close
      in set_column (length bars)
           (map (\<lambda>(f, s). crossover_signal f s) (zip fast_sma slow_sma)))"

definition sma_generate_signals :: "float_library \<Rightarrow> nat \<Rightarrow> nat \<Rightarrow> price_data
    \<Rightarrow> error + (string \<times> int list) list" where
  "sma_generate_signals lib fast_window slow_window pd =
     for_pairs (sma_signals_pair lib fast_window slow_window) pd"

subsection \<open>RSI with Bollinger Bands\<close>

text \<open>
  The relative-strength oscillator and the band functions belong to the indicator
  library; the generator is defined for any such functions.  Each takes its window (the
  bands also their width) and the close series, and returns a series on the same index.
\<close>

record ta_library =
  rsi :: "nat \<Rightarrow> rat option list \<Rightarrow> rat option list"
  bollinger_lband :: "nat \<Rightarrow> rat \<Rightarrow> rat option list \<Rightarrow> rat option list"
  bollinger_hband :: "nat \<Rightarrow> rat \<Rightarrow> rat option list \<Rightarrow> rat option list"

record rsi_bb_params =
  rsi_window :: nat
  bb_window :: nat
  bb_std :: rat
  rsi_oversold :: rat
  rsi_overbought :: rat

fun nan_le :: "rat option \<Rightarrow> rat option \<Rightarrow> bool" where
  "nan_le (Some a) (Some b) = (a \<le> b)"
| "nan_le _ _ = False"

text \<open>The entry of a series at a label of the close series; NaN where it has none.\<close>

definition at_label :: "rat option list \<Rightarrow> nat \<Rightarrow> rat option" where
  "at_label xs i = (if i < length xs then xs ! i else None)"

text \<open>\<open>np.select([long_cond, short_cond], [1, -1], default=0)\<close>, one element.\<close>

definition rsi_bb_signal :: "rsi_bb_params \<Rightarrow> rat option \<Rightarrow> rat option \<Rightarrow> rat option
    \<Rightarrow> rat option \<Rightarrow> int" where
  "rsi_bb_signal ps r close lower upper =
     (let long_cond = (nan_lt r (Some (rsi_oversold ps)) \<and> nan_le close lower);
          short_cond = (nan_gt r (Some (rsi_overbought ps)) \<and> nan_le upper close)
      in if long_cond then 1 else if short_cond then - 1 else 0)"

definition rsi_bb_signals_pair :: "ta_library \<Rightarrow> rsi_bb_params \<Rightarrow> bar list
    \<Rightarrow> error + int list" where
  "rsi_bb_signals_pair ta ps bars =
     (let close = dropna (map b_close bars);
          r = rsi ta (rsi_window ps) close;
          bb_lower = bollinger_lband ta (bb_window ps) (bb_std ps) close;
          bb_upper = bollinger_hband ta (bb_window ps) (bb_std ps) close
      in set_column (length bars)
           (map (\<lambda>i. rsi_bb_signal ps (at_label r i) (close ! i)
                        (at_label bb_lower i) (at_label bb_upper i))
                [0..<length close]))"

definition rsi_bb_generate_signals :: "ta_library \<Rightarrow> rsi_bb_params \<Rightarrow> price_data
    \<Rightarrow> error + (string \<times> int list) list" where
  "rsi_bb_generate_signals ta ps pd = for_pairs (rsi_bb_signals_pair ta ps) pd"

subsection \<open>VWAP reversion\<close>

text \<open>
  \<open>calculate_vwap\<close>: the typical price is \<open>(high + low + close) / 3\<close>; the rolling sum
  of price times volume is divided by the rolling sum of volume.
\<close>

definition calculate_vwap :: "float_library \<Rightarrow> nat \<Rightarrow> fl list \<Rightarrow> fl list \<Rightarrow> fl list \<Rightarrow> fl list
    \<Rightarrow> fl list" where
  "calculate_vwap lib lookback_window high low close volume =
     (let typical_price =
            map (\<lambda>(h, l, c).
                   fl_div (rnd lib) (fl_add (rnd lib) (fl_add (rnd lib) h l) c) (Fin 3))
                (zip high (zip low close));
          pv = map (\<lambda>(t, v). fl_mul (rnd lib) t v) (zip typical_price volume)
      in map (\<lambda>(a, b). fl_div (rnd lib) a b)
             (zip (rolling_sum lib lookback_window pv)
                  (rolling_sum lib lookback_window volume)))"

text \<open>\<open>deviation = (close - vwap) / vwap\<close>, one element.\<close>

definition deviation :: "float_library \<Rightarrow> fl \<Rightarrow> fl \<Rightarrow> fl" where
  "deviation lib close vwap = fl_div (rnd lib) (fl_sub (rnd lib) close vwap) vwap"

text \<open>
  \<open>np.select([deviation < -threshold, deviation > threshold], [1, -1], default=0)\<close>,
  one element.
\<close>

definition vwap_signal :: "float_library \<Rightarrow> rat \<Rightarrow> fl \<Rightarrow> fl \<Rightarrow> int" where
  "vwap_signal lib deviation_threshold close vwap =
     (let d = deviation lib close vwap
      in if fl_lt d (Fin (- deviation_threshold)) then 1
         else if fl_gt d (Fin deviation_threshold) then - 1 else 0)"

definition vwap_of_bars :: "float_library \<Rightarrow> nat \<Rightarrow> bar list \<Rightarrow> fl list" where
  "vwap_of_bars lib lookback_window bars =
     calculate_vwap lib lookback_window
       (map (\<lambda>b. of_column (b_high b)) bars) (map (\<lambda>b. of_column (b_low b)) bars)
       (map (\<lambda>b. of_column (b_close b)) bars) (map (\<lambda>b. of_column (b_volume b)) bars)"

definition vwap_signals_pair :: "float_library \<Rightarrow> nat \<Rightarrow> rat \<Rightarrow> bar list
    \<Rightarrow> error + int list" where
  "vwap_signals_pair lib lookback_window deviation_threshold bars =
     (let close = map (\<lambda>b. of_column (b_close b)) bars;
          vwap = vwap_of_bars lib lookback_window bars
      in set_column (length bars)
           (map (\<lambda>(c, v). vwap_signal lib deviation_threshold c v) (zip close vwap)))"

definition vwap_generate_signals :: "float_library \<Rightarrow> nat \<Rightarrow> rat \<Rightarrow> price_data
    \<Rightarrow> error + (string \<times> int list) list" where
  "vwap_generate_signals lib lookback_window deviation_threshold pd =
     for_pairs (vwap_signals_pair lib lookback_window deviation_threshold) pd"

text \<open>A bar whose four prices are all \<open>p\<close>, with volume \<open>v\<close>: used in examples.\<close>

definition flat_bar :: "rat option \<Rightarrow> rat option \<Rightarrow> bar" where
  "flat_bar p v = \<lparr>b_open = p, b_high = p, b_low = p, b_close = p, b_volume = v\<rparr>"

section \<open>Execution simulator\<close>


datatype side = Buy | Sell

record order =
  o_idx :: nat
  o_side :: side
  o_size :: rat
  o_price :: rat
  o_fees :: rat

record sim_state =
  cash :: rat
  shares :: rat
  orders :: "order list"

definition init_cash :: rat where
  "init_cash = 100"

definition min_size :: rat where
  "min_size = 1 / 100000000"

definition rel_tol :: rat where
  "rel_tol = 1 / 1000000000"

definition abs_tol :: rat where
  "abs_tol = 1 / 1000000000000"

definition is_close_nb :: "rat \<Rightarrow> rat \<Rightarrow> bool" where
  "is_close_nb a b = (a = b \<or> \<bar>a - b\<bar> \<le> max (rel_tol * max \<bar>a\<bar> \<bar>b\<bar>) abs_tol)"

definition is_less_nb :: "rat \<Rightarrow> rat \<Rightarrow> bool" where
  "is_less_nb a b = (if is_close_nb a b then False else a < b)"

definition initial_state :: sim_state where
  "initial_state = \<lparr>cash = init_cash, shares = 0, orders = []\<rparr>"


definition buy_nb :: "rat \<Rightarrow> rat \<Rightarrow> sim_state \<Rightarrow> nat \<Rightarrow> rat \<Rightarrow> error + sim_state" where
  "buy_nb fees slippage st i price =
     (let adj_price = price * (1 + slippage);
          cash_limit = cash st
      in if is_close_nb cash_limit 0 then Inr st
         else if 1 + fees = 0 then Inl ZeroDivisionError
         else
           let max_req_cash = cash_limit / (1 + fees)
           in if max_req_cash \<le> 0 then Inr st
              else
                let final_size = max_req_cash / adj_price
                in if is_less_nb final_size min_size then Inr st
                   else Inr \<lparr>cash = cash st - cash_limit,
                           shares = shares st + final_size,
                           orders = orders st @
                             [\<lparr>o_idx = i, o_side = Buy, o_size = final_size,
                               o_price = adj_price,
                               o_fees = cash_limit - max_req_cash\<rparr>]\<rparr>)"

definition sell_nb :: "rat \<Rightarrow> rat \<Rightarrow> sim_state \<Rightarrow> nat \<Rightarrow> rat \<Rightarrow> error + sim_state" where
  "sell_nb fees slippage st i price =
     (let adj_price = price * (1 - slippage);
          size_limit = shares st
      in if is_close_nb size_limit 0 then Inr st
         else if is_less_nb size_limit min_size then Inr st
         else
           let acq_cash = size_limit * adj_price;
               fees_paid = acq_cash * fees;
               final_acq_cash = acq_cash - fees_paid
           in if final_acq_cash < 0 then Inr st
              else Inr \<lparr>cash = cash st + final_acq_cash,
                      shares = shares st - size_limit,
                      orders = orders st @
                        [\<lparr>o_idx = i, o_side = Sell, o_size = size_limit,
                          o_price = adj_price, o_fees = fees_paid\<rparr>]\<rparr>)"

definition execute_order :: "rat \<Rightarrow> rat \<Rightarrow> sim_state \<Rightarrow> nat \<Rightarrow> side \<Rightarrow> rat option
    \<Rightarrow> error + sim_state" where
  "execute_order fees slippage st i sd close =
     (case close of
        None \<Rightarrow> Inr st
      | Some p \<Rightarrow>
          if cash st < 0 then Inl ValueError
          else if p \<le> 0 then Inl ValueError
          else if slippage < 0 then Inl ValueError
          else if sd = Buy then buy_nb fees slippage st i p
          else sell_nb fees slippage st i p)"

definition signal_step :: "rat \<Rightarrow> rat \<Rightarrow> sim_state \<Rightarrow> nat \<Rightarrow> rat option \<Rightarrow> bool \<Rightarrow> bool
    \<Rightarrow> error + sim_state" where
  "signal_step fees slippage st i close entry exit =
     (if entry \<and> \<not> exit \<and> shares st = 0
        then execute_order fees slippage st i Buy close
      else if exit \<and> \<not> entry \<and> 0 < shares st
        then execute_order fees slippage st i Sell close
      else Inr st)"

text \<open>The rows are visited in time order; the first exception ends the simulation.\<close>

fun simulate :: "rat \<Rightarrow> rat \<Rightarrow> sim_state \<Rightarrow> (nat \<times> rat option \<times> bool \<times> bool) list
    \<Rightarrow> error + sim_state" where
  "simulate fees slippage st [] = Inr st"
| "simulate fees slippage st ((i, close, entry, exit) # rows) =
     (case signal_step fees slippage st i close entry exit of
        Inl e \<Rightarrow> Inl e
      | Inr st' \<Rightarrow> simulate fees slippage st' rows)"

definition from_signals :: "rat option list \<Rightarrow> bool list \<Rightarrow> bool list \<Rightarrow> rat \<Rightarrow> rat
    \<Rightarrow> error + sim_state" where
  "from_signals close entries exits fees slippage =
     simulate fees slippage initial_state
       (zip [0..<length close] (zip close (zip entries exits)))"

text \<open>
  \<open>run_backtest\<close> for one asset, for any of the three signal generators: the signals are
  generated, turned into the two masks and simulated.
\<close>

definition run_backtest_pair :: "(bar list \<Rightarrow> error + int list) \<Rightarrow> rat \<Rightarrow> rat \<Rightarrow> bar list
    \<Rightarrow> error + sim_state" where
  "run_backtest_pair generate commission slippage bars =
     (case generate bars of
        Inl e \<Rightarrow> Inl e
      | Inr signals \<Rightarrow>
          from_signals (map b_close bars) (map (\<lambda>s. s = 1) signals)
            (map (\<lambda>s. s = - 1) signals) commission slippage)"



definition bind_err :: "error + 'a \<Rightarrow> ('a \<Rightarrow> error + 'b) \<Rightarrow> error + 'b" where
  "bind_err r f = (case r of Inl e \<Rightarrow> Inl e | Inr x \<Rightarrow> f x)"

section \<open>Metrics\<close>

text \<open>
  A trade record of the portfolio.  The records hold the closed trades and also the trade
  that is still open at the end of the data, which is valued at the last close.
\<close>

datatype trade_status = Open | Closed

record trade =
  entry_idx :: int
  exit_idx :: int
  pnl :: rat
  status :: trade_status

text \<open>
  The time index of the portfolio: timestamps (in seconds) or labels of another kind,
  of which only the number matters.
\<close>

datatype index = DatetimeIndex "rat list" | OtherIndex nat

datatype metric = MFloat fl | MInt int | MStr string

type_synonym dict = "(string \<times> metric) list"

fun dict_set :: "string \<Rightarrow> metric \<Rightarrow> dict \<Rightarrow> dict" where
  "dict_set k v [] = [(k, v)]"
| "dict_set k v ((k', v') # d) =
     (if k = k' then (k, v) # d else (k', v') # dict_set k v d)"

text \<open>\<open>d.update(new)\<close> and \<open>{**d, **new}\<close>.\<close>

definition dict_update :: "dict \<Rightarrow> dict \<Rightarrow> dict" where
  "dict_update d new = fold (\<lambda>(k, v). dict_set k v) new d"

text \<open>
  The portfolio object belongs to the backtesting library.  Each of its accessors used
  by the metrics code either returns a value or raises.  The trade records are read
  through two accessors, \<open>trades.records\<close> and \<open>trades.records_readable\<close>.
\<close>

record portfolio =
  trades_records :: "error + trade list"
  trades_records_readable :: "error + trade list"
  total_return :: "error + fl"
  sharpe_ratio :: "error + fl"
  max_drawdown :: "error + fl"
  positions_records :: "error + trade list"
  orders_len :: "error + nat"
  wrapper_index :: "error + index"

subsection \<open>Trade durations\<close>

definition bar_duration :: "index \<Rightarrow> rat" where
  "bar_duration idx =
     (case idx of
        DatetimeIndex ts \<Rightarrow> if 1 < length ts then (ts ! 1 - ts ! 0) / 60 else 1
      | OtherIndex n \<Rightarrow> 1)"

definition median :: "rat list \<Rightarrow> rat" where
  "median xs =
     (let s = sort xs; n = length xs
      in if odd n then s ! (n div 2) else (s ! (n div 2 - 1) + s ! (n div 2)) / 2)"

fun trade_duration_stats :: "index \<Rightarrow> trade list \<Rightarrow> dict" where
  "trade_duration_stats idx [] = []"
| "trade_duration_stats idx (t # ts) =
     (let minutes = (\<lambda>t. of_int (exit_idx t - entry_idx t) * bar_duration idx);
          d = minutes t;
          ds = map minutes ts
      in [(''avg_trade_duration'', MFloat (Fin (sum_list (d # ds) / of_nat (length (d # ds))))),
          (''median_trade_duration'', MFloat (Fin (median (d # ds)))),
          (''max_trade_duration'', MFloat (Fin (fold max ds d))),
          (''min_trade_duration'', MFloat (Fin (fold min ds d)))])"

definition calculate_trade_duration_stats :: "portfolio \<Rightarrow> error + dict" where
  "calculate_trade_duration_stats p =
     bind_err (trades_records p) (\<lambda>trades.
       if trades = [] then Inr []
       else bind_err (wrapper_index p) (\<lambda>idx. Inr (trade_duration_stats idx trades)))"

subsection \<open>Profit factor and win rate\<close>

definition profit_factor :: "trade list \<Rightarrow> fl" where
  "profit_factor trades =
     (if trades = [] then Fin 0
      else
        let gross_profits = sum_list (filter (\<lambda>x. 0 < x) (map pnl trades));
            gross_losses = sum_list (filter (\<lambda>x. x < 0) (map pnl trades))
        in if gross_losses = 0 then PInf else Fin (gross_profits / \<bar>gross_losses\<bar>))"

definition calculate_profit_factor :: "portfolio \<Rightarrow> error + fl" where
  "calculate_profit_factor p =
     bind_err (trades_records_readable p) (\<lambda>trades. Inr (profit_factor trades))"

definition win_rate :: "trade list \<Rightarrow> rat" where
  "win_rate trades =
     (if 0 < length trades
      then of_nat (length (filter (\<lambda>t. 0 < pnl t) trades)) / of_nat (length trades)
      else 0)"

subsection \<open>The metrics record\<close>

text \<open>\<open>_calculate_exposure\<close> has a handler of its own: any exception gives 0.0.\<close>

definition calculate_exposure :: "portfolio \<Rightarrow> fl" where
  "calculate_exposure p =
     (case positions_records p of
        Inl e \<Rightarrow> Fin 0
      | Inr positions \<Rightarrow>
          if length positions = 0 then Fin 0
          else
            (case orders_len p of
               Inl e \<Rightarrow> Fin 0
             | Inr n \<Rightarrow>
                 fl_div Fin
                   (Fin (sum_list (map (\<lambda>t. of_int (exit_idx t - entry_idx t)) positions)
                         / of_nat (length positions)))
                   (Fin (of_nat n))))"

definition placeholder_metrics :: dict where
  "placeholder_metrics =
     [(''total_return'', MFloat (Fin 0)),
      (''sharpe_ratio'', MFloat (Fin 0)),
      (''max_drawdown'', MFloat (Fin 0)),
      (''win_rate'', MFloat (Fin 0)),
      (''total_trades'', MInt 0),
      (''exposure_time'', MFloat (Fin 0)),
      (''avg_trade_duration'', MFloat (Fin 0)),
      (''median_trade_duration'', MFloat (Fin 0)),
      (''max_trade_duration'', MFloat (Fin 0)),
      (''min_trade_duration'', MFloat (Fin 0)),
      (''profit_factor'', MFloat (Fin 0))]"

text \<open>The body of the \<open>try\<close> block of \<open>calculate_metrics\<close>.\<close>

definition metrics_try :: "portfolio \<Rightarrow> error + dict" where
  "metrics_try p =
     bind_err (trades_records p) (\<lambda>trades.
     bind_err (total_return p) (\<lambda>tr.
     bind_err (sharpe_ratio p) (\<lambda>sr.
     bind_err (max_drawdown p) (\<lambda>md.
       let base_metrics =
             [(''total_return'', MFloat tr),
              (''sharpe_ratio'', MFloat sr),
              (''max_drawdown'', MFloat md),
              (''win_rate'', MFloat (Fin (win_rate trades))),
              (''total_trades'', MInt (int (length trades))),
              (''exposure_time'', MFloat (calculate_exposure p))]
       in bind_err (calculate_trade_duration_stats p) (\<lambda>trade_stats.
          bind_err (calculate_profit_factor p) (\<lambda>pf.
            Inr (dict_update (dict_update base_metrics trade_stats)
                   [(''profit_factor'', MFloat pf)])))))))"

definition calculate_metrics :: "portfolio \<Rightarrow> dict" where
  "calculate_metrics p =
     (case metrics_try p of Inl e \<Rightarrow> placeholder_metrics | Inr m \<Rightarrow> m)"

subsection \<open>Strategy run\<close>

text \<open>
  A strategy, as the backtester sees it: the outcome of its \<open>run_backtest\<close> (a portfolio
  or an exception) and the identity and parameter entries that its \<open>get_metrics\<close> adds.
\<close>

record strategy =
  s_run_backtest :: "error + portfolio"
  s_identity :: dict

definition get_metrics :: "strategy \<Rightarrow> error + dict" where
  "get_metrics s =
     bind_err (s_run_backtest s) (\<lambda>p.
       Inr (dict_update (calculate_metrics p) (s_identity s)))"

text \<open>\<open>Backtester.run_backtest\<close>: \<open>None\<close> when an exception reaches its handler.\<close>

definition backtester_run_backtest :: "strategy \<Rightarrow> (dict \<times> portfolio) option" where
  "backtester_run_backtest s =
     (case s_run_backtest s of
        Inl e \<Rightarrow> None
      | Inr p \<Rightarrow>
          (case get_metrics s of
             Inl e \<Rightarrow> None
           | Inr m \<Rightarrow> Some (m, p)))"

section \<open>Auxiliary definitions\<close>

text \<open>The column \<open>typical_price * volume\<close> inside \<open>calculate_vwap\<close>.\<close>

definition price_volume :: "float_library \<Rightarrow> bar list \<Rightarrow> fl list" where
  "price_volume lib bars =
     map (\<lambda>b. fl_mul (rnd lib)
                (fl_div (rnd lib)
                   (fl_add (rnd lib)
                      (fl_add (rnd lib) (of_column (b_high b)) (of_column (b_low b)))
                      (of_column (b_close b)))
                   (Fin 3))
                (of_column (b_volume b)))
         bars"

text \<open>
  The duration statistics as the specification words them: mean, median, maximum and
  minimum of the durations in bars, each converted to minutes afterwards.
\<close>

definition mean :: "rat list \<Rightarrow> rat" where
  "mean xs = sum_list xs / of_nat (length xs)"

definition durations_bars :: "trade list \<Rightarrow> rat list" where
  "durations_bars trades = map (\<lambda>t. of_int (exit_idx t - entry_idx t)) trades"

definition duration_stats_in_minutes :: "rat \<Rightarrow> trade list \<Rightarrow> dict" where
  "duration_stats_in_minutes bar_minutes trades =
     [(''avg_trade_duration'', MFloat (Fin (mean (durations_bars trades) * bar_minutes))),
      (''median_trade_duration'', MFloat (Fin (median (durations_bars trades) * bar_minutes))),
      (''max_trade_duration'', MFloat (Fin (Max (set (durations_bars trades)) * bar_minutes))),
      (''min_trade_duration'', MFloat (Fin (Min (set (durations_bars trades)) * bar_minutes)))]"

section \<open>Rolling windows and the crossover signal\<close>

lemma length_rolling_mean [simp]: "length (rolling_mean lib w xs) = length xs"
  by (simp add: rolling_mean_def)

lemma length_rolling_sum [simp]: "length (rolling_sum lib w xs) = length xs"
  by (simp add: rolling_sum_def)

lemma length_sma_indicator [simp]: "length (sma_indicator lib w xs) = length xs"
  by (simp add: sma_indicator_def)

lemma length_observations_le: "length (observations ws) \<le> length ws"
  by (simp add: observations_def)

lemma length_window_le: "length (window w xs i) \<le> Suc i"
  by (simp add: window_def)

lemma length_window_le_w: "length (window w xs i) \<le> w"
  by (simp add: window_def)

lemma observations_short:
  assumes "NaN \<in> set ws"
  shows "length (observations ws) < length ws"
  using assms length_filter_less [of NaN ws "\<lambda>x. x \<noteq> NaN"]
  by (simp add: observations_def)

lemma window_member:
  assumes "j \<le> i" and "i < j + w" and "i < length xs"
  shows "xs ! j \<in> set (window w xs i)"
proof -
  let ?k = "j - (Suc i - w)"
  have k: "Suc i - w + ?k = j" using assms by arith
  have len: "?k < length (drop (Suc i - w) (take (Suc i) xs))"
    using assms by (simp add: min_def) arith
  have "drop (Suc i - w) (take (Suc i) xs) ! ?k = xs ! j"
    using assms k len by (simp add: min_def)
  with len show ?thesis
    unfolding window_def by (metis nth_mem)
qed

lemma rolling_mean_warmup:
  assumes "i < length xs" and "Suc i < w"
  shows "rolling_mean lib w xs ! i = NaN"
proof -
  have "length (observations (window w xs i)) \<le> Suc i"
    using length_observations_le [of "window w xs i"] length_window_le [of w xs i]
    by linarith
  with assms show ?thesis
    by (simp add: rolling_mean_def)
qed

lemma rolling_sum_warmup:
  assumes "i < length xs" and "Suc i < w"
  shows "rolling_sum lib w xs ! i = NaN"
proof -
  have "length (observations (window w xs i)) \<le> Suc i"
    using length_observations_le [of "window w xs i"] length_window_le [of w xs i]
    by linarith
  with assms show ?thesis
    by (simp add: rolling_sum_def)
qed

lemma rolling_sum_missing:
  assumes "j \<le> i" and "i < j + w" and "i < length xs" and "xs ! j = NaN"
  shows "rolling_sum lib w xs ! i = NaN"
proof -
  have "NaN \<in> set (window w xs i)"
    using window_member [OF assms(1-3)] assms(4) by simp
  then have "length (observations (window w xs i)) < w"
    using observations_short [of "window w xs i"] length_window_le_w [of w xs i]
    by linarith
  with assms show ?thesis
    by (simp add: rolling_sum_def)
qed

lemma set_column_Inr: "set_column n vs = Inr s \<longleftrightarrow> length vs = n \<and> s = vs"
  by (auto simp: set_column_def)

lemma dropna_full:
  assumes "length (dropna xs) = length xs"
  shows "dropna xs = xs"
proof -
  have "\<forall>x\<in>set xs. x \<noteq> None"
  proof (rule ccontr)
    assume "\<not> (\<forall>x\<in>set xs. x \<noteq> None)"
    then have "None \<in> set xs" by auto
    then have "length (dropna xs) < length xs"
      using length_filter_less [of None xs "\<lambda>x. x \<noteq> None"] by (simp add: dropna_def)
    with assms show False by simp
  qed
  then show ?thesis by (simp add: dropna_def)
qed

lemma dropna_missing:
  assumes "None \<in> set xs"
  shows "length (dropna xs) < length xs"
  using assms length_filter_less [of None xs "\<lambda>x. x \<noteq> None"] by (simp add: dropna_def)

lemma sma_signals_pair_Inr:
  assumes "sma_signals_pair lib fw sw bars = Inr sigs"
  shows "dropna (map b_close bars) = map b_close bars"
    and "sigs = map (\<lambda>(f, s). crossover_signal f s)
                 (zip (sma_indicator lib fw (map of_column (map b_close bars)))
                      (sma_indicator lib sw (map of_column (map b_close bars))))"
proof -
  from assms have "length (dropna (map b_close bars)) = length bars"
    by (simp add: sma_signals_pair_def Let_def set_column_Inr)
  then show d: "dropna (map b_close bars) = map b_close bars"
    using dropna_full [of "map b_close bars"] by simp
  from assms show "sigs = map (\<lambda>(f, s). crossover_signal f s)
                 (zip (sma_indicator lib fw (map of_column (map b_close bars)))
                      (sma_indicator lib sw (map of_column (map b_close bars))))"
    unfolding sma_signals_pair_def Let_def set_column_Inr d by simp
qed

lemma for_pairs_nth:
  assumes "for_pairs f pd = Inr cols"
  shows "length cols = length pd \<and>
    (\<forall>k<length pd. fst (cols ! k) = fst (pd ! k) \<and> f (snd (pd ! k)) = Inr (snd (cols ! k)))"
  using assms
proof (induction pd arbitrary: cols)
  case Nil
  then show ?case by simp
next
  case (Cons a pd)
  obtain pair bars where a: "a = (pair, bars)" by (cases a)
  from Cons.prems a obtain col rest where
    c: "f bars = Inr col" and r: "for_pairs f pd = Inr rest" and cols: "cols = (pair, col) # rest"
    by (auto split: sum.splits)
  from Cons.IH [OF r] have l: "length rest = length pd"
    and n: "\<forall>k<length pd. fst (rest ! k) = fst (pd ! k) \<and> f (snd (pd ! k)) = Inr (snd (rest ! k))"
    by simp_all
  show ?case
  proof (intro conjI allI impI)
    show "length cols = length (a # pd)" using l by (simp add: cols)
  next
    fix k assume "k < length (a # pd)"
    then show "fst (cols ! k) = fst ((a # pd) ! k)"
      using n c by (cases k) (simp_all add: cols a)
  next
    fix k assume "k < length (a # pd)"
    then show "f (snd ((a # pd) ! k)) = Inr (snd (cols ! k))"
      using n c by (cases k) (simp_all add: cols a)
  qed
qed

lemma for_pairs_Inr:
  assumes "for_pairs f pd = Inr cols"
  shows "map fst cols = map fst pd \<and> (\<forall>(pair, col) \<in> set cols. \<exists>bars. f bars = Inr col)"
proof -
  from for_pairs_nth [OF assms] have l: "length cols = length pd"
    and n: "\<forall>k<length pd. fst (cols ! k) = fst (pd ! k) \<and> f (snd (pd ! k)) = Inr (snd (cols ! k))"
    by simp_all
  have "map fst cols = map fst pd"
    using l n by (simp add: list_eq_iff_nth_eq)
  moreover have "\<forall>(pair, col) \<in> set cols. \<exists>bars. f bars = Inr col"
  proof (clarify)
    fix pair col assume "(pair, col) \<in> set cols"
    then obtain k where k: "k < length cols" "cols ! k = (pair, col)"
      by (auto simp: in_set_conv_nth)
    with l n have "f (snd (pd ! k)) = Inr col" by simp
    then show "\<exists>bars. f bars = Inr col" by blast
  qed
  ultimately show ?thesis by blast
qed

lemma for_pairs_total:
  assumes "\<And>bars. \<exists>col. f bars = Inr col"
  shows "\<exists>cols. for_pairs f pd = Inr cols"
proof (induction pd)
  case Nil
  then show ?case by simp
next
  case (Cons a pd)
  obtain pair bars where a: "a = (pair, bars)" by (cases a)
  from assms obtain col where "f bars = Inr col" by blast
  with Cons a show ?case by auto
qed

lemma fl_lt_NaN_right [simp]: "fl_lt x NaN = False"
  by (cases x) simp_all

lemma fl_lt_asym: "fl_lt x y \<Longrightarrow> \<not> fl_lt y x"
  by (cases x; cases y) auto

lemma crossover_signal_NaN: "fast = NaN \<or> slow = NaN \<Longrightarrow> crossover_signal fast slow = 0"
  by (auto simp: crossover_signal_def fl_gt_def)

lemma crossover_signal_rule:
  "(fl_gt x y \<longrightarrow> crossover_signal x y = 1) \<and>
   (fl_lt x y \<longrightarrow> crossover_signal x y = - 1) \<and>
   (\<not> fl_gt x y \<and> \<not> fl_lt x y \<longrightarrow> crossover_signal x y = 0) \<and>
   (\<forall>f s. x = Fin f \<and> y = Fin s \<and> s < f \<longrightarrow> crossover_signal x y = 1) \<and>
   (\<forall>f s. x = Fin f \<and> y = Fin s \<and> f < s \<longrightarrow> crossover_signal x y = - 1) \<and>
   (\<forall>f s. x = Fin f \<and> y = Fin s \<and> f = s \<longrightarrow> crossover_signal x y = 0) \<and>
   (x = NaN \<or> y = NaN \<longrightarrow> crossover_signal x y = 0)"
proof (intro conjI impI allI)
  assume "fl_lt x y"
  then show "crossover_signal x y = - 1"
    using fl_lt_asym [of x y] by (simp add: crossover_signal_def fl_gt_def)
next
  assume "x = NaN \<or> y = NaN"
  then show "crossover_signal x y = 0" by (rule crossover_signal_NaN)
qed (simp_all add: crossover_signal_def fl_gt_def)

text \<open>
  Claim C2.  When the crossover generator returns a signal panel, the panel has one
  column for every asset of the price panel, under the asset's name and of the asset's
  length, and at every timestamp of every asset: the signal is 1 if the fast moving
  average is greater than the slow one, -1 if it is less, 0 if neither holds (they are
  equal), and 0 if either is NaN; during the warm-up of a moving average (fewer rows
  than its window) that average is NaN.  The moving averages are the values that the
  library computes, whatever its rounding.
\<close>

theorem sma_crossover_rule:
  assumes "sma_generate_signals lib fw sw pd = Inr cols"
    and "k < length pd" and "i < length (snd (pd ! k))"
  shows "length cols = length pd \<and> fst (cols ! k) = fst (pd ! k) \<and>
    length (snd (cols ! k)) = length (snd (pd ! k)) \<and>
    (let close = map of_column (map b_close (snd (pd ! k)));
         fast = sma_indicator lib fw close ! i;
         slow = sma_indicator lib sw close ! i;
         signal = snd (cols ! k) ! i
     in (fl_gt fast slow \<longrightarrow> signal = 1) \<and>
        (fl_lt fast slow \<longrightarrow> signal = - 1) \<and>
        (\<not> fl_gt fast slow \<and> \<not> fl_lt fast slow \<longrightarrow> signal = 0) \<and>
        (\<forall>f s. fast = Fin f \<and> slow = Fin s \<and> s < f \<longrightarrow> signal = 1) \<and>
        (\<forall>f s. fast = Fin f \<and> slow = Fin s \<and> f < s \<longrightarrow> signal = - 1) \<and>
        (\<forall>f s. fast = Fin f \<and> slow = Fin s \<and> f = s \<longrightarrow> signal = 0) \<and>
        (fast = NaN \<or> slow = NaN \<longrightarrow> signal = 0) \<and>
        (Suc i < fw \<longrightarrow> fast = NaN) \<and> (Suc i < sw \<longrightarrow> slow = NaN))"
proof -
  let ?bars = "snd (pd ! k)"
  let ?c = "map of_column (map b_close ?bars)"
  let ?sigs = "snd (cols ! k)"
  from for_pairs_nth [OF assms(1) [unfolded sma_generate_signals_def]] assms(2)
  have l: "length cols = length pd" and p: "fst (cols ! k) = fst (pd ! k)"
    and g: "sma_signals_pair lib fw sw ?bars = Inr ?sigs"
    by simp_all
  have s: "?sigs = map (\<lambda>(f, s). crossover_signal f s)
                 (zip (sma_indicator lib fw ?c) (sma_indicator lib sw ?c))"
    using sma_signals_pair_Inr(2) [OF g] .
  have len: "length ?sigs = length ?bars"
    by (subst s) simp
  have nth: "?sigs ! i = crossover_signal (sma_indicator lib fw ?c ! i) (sma_indicator lib sw ?c ! i)"
    using assms(3) by (subst s) simp
  have wf: "Suc i < fw \<longrightarrow> sma_indicator lib fw ?c ! i = NaN"
    using assms(3) rolling_mean_warmup [of i ?c fw lib] by (simp add: sma_indicator_def)
  have ws: "Suc i < sw \<longrightarrow> sma_indicator lib sw ?c ! i = NaN"
    using assms(3) rolling_mean_warmup [of i ?c sw lib] by (simp add: sma_indicator_def)
  note r = crossover_signal_rule
    [of "sma_indicator lib fw ?c ! i" "sma_indicator lib sw ?c ! i"]
  show ?thesis
    unfolding Let_def nth using l p len wf ws r by blast
qed

theorem sma_crossover_rule_witness:
  "sma_generate_signals exact_library 1 2
       [(''BTC/USDT'', map (\<lambda>c. flat_bar (Some c) (Some 1)) [1, 2, 3, 3, 1])]
     = Inr [(''BTC/USDT'', [0, 1, 1, 0, - 1])] \<and>
   (0::nat) < length [(''BTC/USDT'', map (\<lambda>c. flat_bar (Some c) (Some 1)) [1, 2, 3, 3, 1 :: rat])] \<and>
   sma_indicator exact_library 1
       (map of_column (map b_close (map (\<lambda>c. flat_bar (Some c) (Some 1)) [1, 2, 3, 3, 1]))) ! 1
     = Fin 2 \<and>
   sma_indicator exact_library 2
       (map of_column (map b_close (map (\<lambda>c. flat_bar (Some c) (Some 1)) [1, 2, 3, 3, 1]))) ! 1
     = Fin (3 / 2) \<and>
   length [(''BTC/USDT'', [0, 1, 1, 0, - 1 :: int])] = 1 \<and>
   snd ([(''BTC/USDT'', [0, 1, 1, 0, - 1 :: int])] ! 0) ! 1 = 1"
proof -
  let ?B = "map (\<lambda>c. flat_bar (Some c) (Some 1)) [1, 2, 3, 3, 1 :: rat]"
  let ?pd = "[(''BTC/USDT'', ?B)]"
  let ?cols = "[(''BTC/USDT'', [0, 1, 1, 0, - 1 :: int])]"
  have h1: "sma_generate_signals exact_library 1 2 ?pd = Inr ?cols" by code_simp
  have h2: "(0::nat) < length ?pd" by simp
  have h3: "(1::nat) < length (snd (?pd ! 0))" by simp
  have f: "sma_indicator exact_library 1 (map of_column (map b_close ?B)) ! 1 = Fin 2"
    by code_simp
  have s: "sma_indicator exact_library 2 (map of_column (map b_close ?B)) ! 1 = Fin (3 / 2)"
    by code_simp
  have lt: "(3 / 2 :: rat) < 2" by simp
  have b: "snd (?pd ! 0) = ?B" by simp
  from sma_crossover_rule [OF h1 h2 h3]
  have l: "length ?cols = length ?pd"
    by (elim conjE)
  from sma_crossover_rule [OF h1 h2 h3]
  have r: "\<forall>f s. sma_indicator exact_library 1 (map of_column (map b_close ?B)) ! 1 = Fin f \<and>
      sma_indicator exact_library 2 (map of_column (map b_close ?B)) ! 1 = Fin s \<and> s < f
      \<longrightarrow> snd (?cols ! 0) ! 1 = 1"
    unfolding Let_def b by (elim conjE)
  from r f s lt have v: "snd (?cols ! 0) ! 1 = 1" by blast
  from l have l': "length ?cols = 1" by simp
  show ?thesis
    by (intro conjI) (rule h1 h2 f s l' v)+
qed

section \<open>Closed world of the signals\<close>

lemma crossover_signal_range: "crossover_signal f s \<in> {- 1, 0, 1}"
  by (simp add: crossover_signal_def)

lemma rsi_bb_signal_range: "rsi_bb_signal ps r c l u \<in> {- 1, 0, 1}"
  by (simp add: rsi_bb_signal_def Let_def)

lemma vwap_signal_range: "vwap_signal lib thr c v \<in> {- 1, 0, 1}"
  by (simp add: vwap_signal_def Let_def)

lemma set_map_range:
  assumes "\<And>x. f x \<in> S"
  shows "set (map f xs) \<subseteq> S"
  using assms by auto

lemma sma_signals_pair_range:
  assumes "sma_signals_pair lib fw sw bars = Inr sigs"
  shows "set sigs \<subseteq> {- 1, 0, 1}"
proof -
  from assms have "\<exists>zs. sigs = map (\<lambda>(f, s). crossover_signal f s) zs"
    unfolding sma_signals_pair_def Let_def set_column_Inr by blast
  then obtain zs where s: "sigs = map (\<lambda>(f, s). crossover_signal f s) zs" by blast
  show ?thesis
    unfolding s
  proof (rule set_map_range)
    fix x :: "fl \<times> fl"
    show "(case x of (f, s) \<Rightarrow> crossover_signal f s) \<in> {- 1, 0, 1}"
      using crossover_signal_range [of "fst x" "snd x"] by (cases x) simp
  qed
qed

lemma rsi_bb_signals_pair_range:
  assumes "rsi_bb_signals_pair ta ps bars = Inr sigs"
  shows "set sigs \<subseteq> {- 1, 0, 1}"
proof -
  from assms have "\<exists>g n. sigs = map (\<lambda>i. rsi_bb_signal ps (fst (g i)) (fst (snd (g i)))
      (fst (snd (snd (g i)))) (snd (snd (snd (g i))))) [0..<n]"
    unfolding rsi_bb_signals_pair_def Let_def set_column_Inr
    by (intro exI [where x = "\<lambda>i.
      (at_label (rsi ta (rsi_window ps) (dropna (map b_close bars))) i,
       dropna (map b_close bars) ! i,
       at_label (bollinger_lband ta (bb_window ps) (bb_std ps) (dropna (map b_close bars))) i,
       at_label (bollinger_hband ta (bb_window ps) (bb_std ps) (dropna (map b_close bars))) i)"]
      exI [where x = "length (dropna (map b_close bars))"]) simp
  then obtain g n where s: "sigs = map (\<lambda>i. rsi_bb_signal ps (fst (g i)) (fst (snd (g i)))
      (fst (snd (snd (g i)))) (snd (snd (snd (g i))))) [0..<n]"
    by blast
  show ?thesis
    unfolding s by (rule set_map_range) (rule rsi_bb_signal_range)
qed

lemma vwap_signals_pair_range:
  assumes "vwap_signals_pair lib w thr bars = Inr sigs"
  shows "set sigs \<subseteq> {- 1, 0, 1}"
proof -
  from assms have "\<exists>zs. sigs = map (\<lambda>(c, v). vwap_signal lib thr c v) zs"
    unfolding vwap_signals_pair_def Let_def set_column_Inr by blast
  then obtain zs where s: "sigs = map (\<lambda>(c, v). vwap_signal lib thr c v) zs" by blast
  show ?thesis
    unfolding s
  proof (rule set_map_range)
    fix x :: "fl \<times> fl"
    show "(case x of (c, v) \<Rightarrow> vwap_signal lib thr c v) \<in> {- 1, 0, 1}"
      using vwap_signal_range [of lib thr "fst x" "snd x"] by (cases x) simp
  qed
qed

text \<open>
  Claim C3.  For each of the three generators, when it returns a signal panel, the panel
  has the pairs of the price panel and every signal value is -1, 0 or 1.
\<close>

theorem signals_closed_world:
  "(sma_generate_signals lib fw sw pd = Inr cols \<longrightarrow>
      map fst cols = map fst pd \<and> (\<forall>(pair, col) \<in> set cols. set col \<subseteq> {- 1, 0, 1})) \<and>
   (rsi_bb_generate_signals ta ps pd = Inr cols \<longrightarrow>
      map fst cols = map fst pd \<and> (\<forall>(pair, col) \<in> set cols. set col \<subseteq> {- 1, 0, 1})) \<and>
   (vwap_generate_signals lib w thr pd = Inr cols \<longrightarrow>
      map fst cols = map fst pd \<and> (\<forall>(pair, col) \<in> set cols. set col \<subseteq> {- 1, 0, 1}))"
proof (intro conjI impI)
  assume a: "sma_generate_signals lib fw sw pd = Inr cols"
  from for_pairs_Inr [OF a [unfolded sma_generate_signals_def]]
  show "map fst cols = map fst pd"
    and "\<forall>(pair, col) \<in> set cols. set col \<subseteq> {- 1, 0, 1}"
    using sma_signals_pair_range by blast+
next
  assume a: "rsi_bb_generate_signals ta ps pd = Inr cols"
  from for_pairs_Inr [OF a [unfolded rsi_bb_generate_signals_def]]
  show "map fst cols = map fst pd"
    and "\<forall>(pair, col) \<in> set cols. set col \<subseteq> {- 1, 0, 1}"
    using rsi_bb_signals_pair_range by blast+
next
  assume a: "vwap_generate_signals lib w thr pd = Inr cols"
  from for_pairs_Inr [OF a [unfolded vwap_generate_signals_def]]
  show "map fst cols = map fst pd"
    and "\<forall>(pair, col) \<in> set cols. set col \<subseteq> {- 1, 0, 1}"
    using vwap_signals_pair_range by blast+
qed

theorem signals_closed_world_witness:
  "sma_generate_signals exact_library 1 2
       [(''BTC/USDT'', map (\<lambda>c. flat_bar (Some c) (Some 1)) [1, 2, 3, 3, 1])]
     = Inr [(''BTC/USDT'', [0, 1, 1, 0, - 1])] \<and>
   rsi_bb_generate_signals
       \<lparr>rsi = (\<lambda>w xs. map (\<lambda>x. Some 20) xs),
        bollinger_lband = (\<lambda>w d xs. xs), bollinger_hband = (\<lambda>w d xs. xs)\<rparr>
       \<lparr>rsi_window = 14, bb_window = 20, bb_std = 2, rsi_oversold = 30, rsi_overbought = 70\<rparr>
       [(''BTC/USDT'', map (\<lambda>c. flat_bar (Some c) (Some 1)) [2, 1])]
     = Inr [(''BTC/USDT'', [1, 1])] \<and>
   vwap_generate_signals exact_library 2 (1 / 100)
       [(''BTC/USDT'', map (\<lambda>c. flat_bar (Some c) (Some 1)) [2, 1, 1, 3])]
     = Inr [(''BTC/USDT'', [0, 1, 0, - 1])] \<and>
   set [0, 1, 1, 0, - 1 :: int] \<subseteq> {- 1, 0, 1} \<and>
   set [1, 1 :: int] \<subseteq> {- 1, 0, 1} \<and>
   set [0, 1, 0, - 1 :: int] \<subseteq> {- 1, 0, 1}"
proof -
  let ?ta = "\<lparr>rsi = (\<lambda>w xs. map (\<lambda>x. Some 20) xs),
        bollinger_lband = (\<lambda>w d xs. xs), bollinger_hband = (\<lambda>w d xs. xs)\<rparr>"
  let ?ps = "\<lparr>rsi_window = 14, bb_window = 20, bb_std = 2, rsi_oversold = 30,
        rsi_overbought = 70\<rparr>"
  have a: "sma_generate_signals exact_library 1 2
       [(''BTC/USDT'', map (\<lambda>c. flat_bar (Some c) (Some 1)) [1, 2, 3, 3, 1])]
     = Inr [(''BTC/USDT'', [0, 1, 1, 0, - 1])]"
    by code_simp
  have b: "rsi_bb_generate_signals ?ta ?ps
       [(''BTC/USDT'', map (\<lambda>c. flat_bar (Some c) (Some 1)) [2, 1])]
     = Inr [(''BTC/USDT'', [1, 1])]"
    by code_simp
  have c: "vwap_generate_signals exact_library 2 (1 / 100)
       [(''BTC/USDT'', map (\<lambda>c. flat_bar (Some c) (Some 1)) [2, 1, 1, 3])]
     = Inr [(''BTC/USDT'', [0, 1, 0, - 1])]"
    by code_simp
  from a signals_closed_world
    [of exact_library 1 2 "[(''BTC/USDT'', map (\<lambda>c. flat_bar (Some c) (Some 1)) [1, 2, 3, 3, 1])]"
        "[(''BTC/USDT'', [0, 1, 1, 0, - 1])]"]
  have a': "set [0, 1, 1, 0, - 1 :: int] \<subseteq> {- 1, 0, 1}"
    by auto
  from b signals_closed_world
    [of _ _ _ "[(''BTC/USDT'', map (\<lambda>c. flat_bar (Some c) (Some 1)) [2, 1])]"
        "[(''BTC/USDT'', [1, 1])]" ?ta ?ps]
  have b': "set [1, 1 :: int] \<subseteq> {- 1, 0, 1}"
    by auto
  from c signals_closed_world
    [of exact_library _ _ "[(''BTC/USDT'', map (\<lambda>c. flat_bar (Some c) (Some 1)) [2, 1, 1, 3])]"
        "[(''BTC/USDT'', [0, 1, 0, - 1])]" _ _ 2 "1 / 100"]
  have c': "set [0, 1, 0, - 1 :: int] \<subseteq> {- 1, 0, 1}"
    by auto
  from a b c a' b' c' show ?thesis by blast
qed

section \<open>Missing close prices\<close>

lemma sma_signals_pair_missing:
  assumes "None \<in> set (map b_close bars)"
  shows "sma_signals_pair lib fw sw bars = Inl ValueError"
proof -
  have "length (dropna (map b_close bars)) < length bars"
    using dropna_missing [OF assms] by simp
  then show ?thesis
    by (simp add: sma_signals_pair_def Let_def set_column_def)
qed

lemma rsi_bb_signals_pair_missing:
  assumes "None \<in> set (map b_close bars)"
  shows "rsi_bb_signals_pair ta ps bars = Inl ValueError"
proof -
  have "length (dropna (map b_close bars)) < length bars"
    using dropna_missing [OF assms] by simp
  then show ?thesis
    by (simp add: rsi_bb_signals_pair_def Let_def set_column_def)
qed

text \<open>
  Claim C5 fails on the code.  A close column with one NaN among three rows makes the
  crossover generator and the RSI/Bollinger generator (for any indicator library) raise
  ValueError: \<open>dropna\<close> shortens the series to two values and the array built from it
  cannot be assigned to the three-row signal column.  So does a backtest run of that
  asset, an asset whose closes are all NaN, and a two-asset panel in which only the
  second asset is all NaN.
\<close>

theorem missing_close_raises:
  "sma_signals_pair lib 10 50
     [flat_bar (Some 1) (Some 1), flat_bar None None, flat_bar (Some 2) (Some 1)]
     = Inl ValueError \<and>
   rsi_bb_signals_pair ta ps
     [flat_bar (Some 1) (Some 1), flat_bar None None, flat_bar (Some 2) (Some 1)]
     = Inl ValueError \<and>
   run_backtest_pair (sma_signals_pair lib 10 50) (1 / 1000) (1 / 2000)
     [flat_bar (Some 1) (Some 1), flat_bar None None, flat_bar (Some 2) (Some 1)]
     = Inl ValueError \<and>
   sma_signals_pair lib 10 50 [flat_bar None None, flat_bar None None] = Inl ValueError \<and>
   sma_generate_signals lib 10 50
     [(''A'', [flat_bar (Some 1) (Some 1), flat_bar (Some 2) (Some 1)]),
      (''B'', [flat_bar None None, flat_bar None None])]
     = Inl ValueError"
proof -
  have n: "None \<in> set (map b_close
      [flat_bar (Some 1) (Some 1), flat_bar None None, flat_bar (Some 2) (Some 1)])"
    by (simp add: flat_bar_def)
  have e: "None \<in> set (map b_close [flat_bar None None, flat_bar None None])"
    by (simp add: flat_bar_def)
  have a: "\<exists>sigs. sma_signals_pair lib 10 50
      [flat_bar (Some 1) (Some 1), flat_bar (Some 2) (Some 1)] = Inr sigs"
    by (simp add: sma_signals_pair_def Let_def set_column_def dropna_def flat_bar_def)
  show ?thesis
    using sma_signals_pair_missing [OF n, of lib 10 50]
      rsi_bb_signals_pair_missing [OF n, of ta ps]
      sma_signals_pair_missing [OF e, of lib 10 50] a
    by (auto simp: run_backtest_pair_def sma_generate_signals_def)
qed

section \<open>VWAP reversion signal\<close>

lemma fl_add_NaN [simp]: "fl_add r NaN b = NaN" "fl_add r a NaN = NaN"
  by (simp_all add: fl_add_def)

lemma fl_sub_NaN [simp]: "fl_sub r NaN b = NaN" "fl_sub r a NaN = NaN"
  by (simp_all add: fl_sub_def)

lemma fl_mul_NaN [simp]: "fl_mul r NaN b = NaN" "fl_mul r a NaN = NaN"
  by (simp_all add: fl_mul_def)

lemma fl_div_NaN [simp]: "fl_div r NaN b = NaN" "fl_div r a NaN = NaN"
  by (simp_all add: fl_div_def)

lemma vwap_signal_NaN: "vwap_signal lib thr c NaN = 0"
  by (simp add: vwap_signal_def deviation_def fl_gt_def)

lemma vwap_signal_missing_close: "vwap_signal lib thr NaN v = 0"
  by (simp add: vwap_signal_def deviation_def fl_gt_def)

lemma deviation_infinite:
  assumes "v = PInf \<or> v = MInf"
  shows "deviation lib c v = NaN"
  using assms
  by (cases c)
     (auto simp: deviation_def fl_sub_def fl_add_def fl_div_def is_inf_def is_zero_def)

lemma vwap_signal_infinite: "v = PInf \<or> v = MInf \<Longrightarrow> vwap_signal lib thr c v = 0"
  by (simp add: vwap_signal_def deviation_infinite fl_gt_def)

lemma vwap_signal_zero_zero:
  assumes "v = Fin 0 \<or> v = NegZero"
  shows "vwap_signal lib thr (Fin 0) v = 0"
  using assms
  by (auto simp: vwap_signal_def deviation_def fl_sub_def fl_add_def fl_div_def
      is_inf_def is_zero_def zero_of_def fl_gt_def)

lemma vwap_signal_zero_pos:
  assumes "0 < c"
  shows "vwap_signal lib thr (Fin c) (Fin 0) = - 1"
proof -
  have "fl_sub (rnd lib) (Fin c) (Fin 0) = Fin c"
    using assms by (simp add: fl_sub_def fl_add_def is_inf_def is_zero_def)
  moreover have "fl_div (rnd lib) (Fin c) (Fin 0) = PInf"
    using assms by (simp add: fl_div_def is_inf_def is_zero_def inf_of_def)
  ultimately show ?thesis
    by (simp add: vwap_signal_def deviation_def fl_gt_def)
qed

lemma length_price_volume [simp]: "length (price_volume lib bars) = length bars"
  by (simp add: price_volume_def)

lemma price_volume_missing:
  assumes "j < length bars"
    and "b_high (bars ! j) = None \<or> b_low (bars ! j) = None \<or> b_close (bars ! j) = None
         \<or> b_volume (bars ! j) = None"
  shows "price_volume lib bars ! j = NaN"
  using assms by (auto simp: price_volume_def)

lemma zip_map_same2: "zip (map f xs) (map g xs) = map (\<lambda>x. (f x, g x)) xs"
  by (induction xs) simp_all

lemma vwap_of_bars_unfold:
  "vwap_of_bars lib w bars =
     map (\<lambda>(a, b). fl_div (rnd lib) a b)
       (zip (rolling_sum lib w (price_volume lib bars))
            (rolling_sum lib w (map (\<lambda>b. of_column (b_volume b)) bars)))"
  by (simp add: vwap_of_bars_def calculate_vwap_def price_volume_def Let_def zip_map_same2
      comp_def)

lemma length_vwap_of_bars [simp]: "length (vwap_of_bars lib w bars) = length bars"
  by (simp add: vwap_of_bars_unfold)

lemma vwap_of_bars_nth:
  assumes "i < length bars"
  shows "vwap_of_bars lib w bars ! i =
     fl_div (rnd lib) (rolling_sum lib w (price_volume lib bars) ! i)
            (rolling_sum lib w (map (\<lambda>b. of_column (b_volume b)) bars) ! i)"
  using assms by (simp add: vwap_of_bars_unfold)

lemma vwap_warmup:
  assumes "i < length bars" and "Suc i < w"
  shows "vwap_of_bars lib w bars ! i = NaN"
  using assms rolling_sum_warmup [of i "price_volume lib bars" w lib]
  by (simp add: vwap_of_bars_nth)

lemma vwap_missing:
  assumes "i < length bars" and "j \<le> i" and "i < j + w"
    and "b_high (bars ! j) = None \<or> b_low (bars ! j) = None \<or> b_close (bars ! j) = None
         \<or> b_volume (bars ! j) = None"
  shows "vwap_of_bars lib w bars ! i = NaN"
proof -
  have "j < length bars" using assms(1,2) by simp
  then have "price_volume lib bars ! j = NaN"
    using assms(4) by (rule price_volume_missing)
  then have "rolling_sum lib w (price_volume lib bars) ! i = NaN"
    using rolling_sum_missing [of j i w "price_volume lib bars" lib] assms(1-3) by simp
  then show ?thesis
    using assms(1) by (simp add: vwap_of_bars_nth)
qed

lemma vwap_signals_pair_total:
  "vwap_signals_pair lib w thr bars =
     Inr (map (\<lambda>(c, v). vwap_signal lib thr c v)
            (zip (map (\<lambda>b. of_column (b_close b)) bars) (vwap_of_bars lib w bars)))"
  by (simp add: vwap_signals_pair_def Let_def set_column_def)

lemma vwap_signals_pair_nth:
  assumes "vwap_signals_pair lib w thr bars = Inr sigs" and "i < length bars"
  shows "length sigs = length bars"
    and "sigs ! i = vwap_signal lib thr (of_column (b_close (bars ! i))) (vwap_of_bars lib w bars ! i)"
  using assms by (auto simp: vwap_signals_pair_total)

lemma vwap_generate_signals_total: "\<exists>cols. vwap_generate_signals lib w thr pd = Inr cols"
  unfolding vwap_generate_signals_def
  by (rule for_pairs_total) (simp add: vwap_signals_pair_total)

lemma vwap_signal_cases:
  "(v \<in> {NaN, PInf, MInf} \<or> c = None \<longrightarrow> vwap_signal lib thr (of_column c) v = 0) \<and>
   (v \<in> {Fin 0, NegZero} \<and> c = Some 0 \<longrightarrow> vwap_signal lib thr (of_column c) v = 0) \<and>
   (\<forall>x. v = Fin 0 \<and> c = Some x \<and> 0 < x \<longrightarrow> vwap_signal lib thr (of_column c) v = - 1)"
  using vwap_signal_NaN [of lib thr "of_column c"] vwap_signal_infinite [of v lib thr "of_column c"]
    vwap_signal_missing_close [of lib thr v] vwap_signal_zero_zero [of v lib thr]
    vwap_signal_zero_pos [of _ lib thr]
  by auto

text \<open>
  Claim C4, amended.  The VWAP generator never raises, and its panel has one column for
  every asset, under the asset's name and of the asset's length.  The VWAP is NaN during
  the warm-up and whenever a high, low, close or volume in its window is missing; where
  the VWAP is NaN or infinite (a zero volume sum), or the close is missing, or the
  deviation is 0/0 (a zero VWAP of either sign and close 0), the signal is 0.  Where the
  VWAP is the positive zero and the close is positive, the deviation is +infinity and the
  signal is -1.
\<close>

theorem vwap_undefined_signal:
  "(\<exists>cols. vwap_generate_signals lib w thr pd = Inr cols) \<and>
   (\<forall>cols k i. vwap_generate_signals lib w thr pd = Inr cols \<and> k < length pd \<and>
        i < length (snd (pd ! k)) \<longrightarrow>
      length cols = length pd \<and> fst (cols ! k) = fst (pd ! k) \<and>
      length (snd (cols ! k)) = length (snd (pd ! k)) \<and>
      (let bars = snd (pd ! k);
           vwap = vwap_of_bars lib w bars ! i;
           close = b_close (bars ! i);
           signal = snd (cols ! k) ! i
       in (Suc i < w \<longrightarrow> vwap = NaN) \<and>
          (\<forall>j. j \<le> i \<and> i < j + w \<and>
               (b_high (bars ! j) = None \<or> b_low (bars ! j) = None \<or>
                b_close (bars ! j) = None \<or> b_volume (bars ! j) = None)
               \<longrightarrow> vwap = NaN) \<and>
          (vwap \<in> {NaN, PInf, MInf} \<or> close = None \<longrightarrow> signal = 0) \<and>
          (vwap \<in> {Fin 0, NegZero} \<and> close = Some 0 \<longrightarrow> signal = 0) \<and>
          (\<forall>c. vwap = Fin 0 \<and> close = Some c \<and> 0 < c \<longrightarrow> signal = - 1)))"
proof (intro conjI allI impI)
  show "\<exists>cols. vwap_generate_signals lib w thr pd = Inr cols"
    by (rule vwap_generate_signals_total)
next
  fix cols k i
  assume a: "vwap_generate_signals lib w thr pd = Inr cols \<and> k < length pd \<and>
        i < length (snd (pd ! k))"
  let ?bars = "snd (pd ! k)"
  let ?sigs = "snd (cols ! k)"
  from a for_pairs_nth [of "vwap_signals_pair lib w thr" pd cols]
  have l: "length cols = length pd" and p: "fst (cols ! k) = fst (pd ! k)"
    and g: "vwap_signals_pair lib w thr ?bars = Inr ?sigs"
    by (simp_all add: vwap_generate_signals_def)
  from a have i: "i < length ?bars" by simp
  show "length cols = length pd" by (rule l)
  show "fst (cols ! k) = fst (pd ! k)" by (rule p)
  show "length ?sigs = length ?bars" using vwap_signals_pair_nth(1) [OF g i] .
  have n: "?sigs ! i = vwap_signal lib thr (of_column (b_close (?bars ! i)))
      (vwap_of_bars lib w ?bars ! i)"
    using vwap_signals_pair_nth(2) [OF g i] .
  have w1: "Suc i < w \<longrightarrow> vwap_of_bars lib w ?bars ! i = NaN"
    using vwap_warmup [OF i] by blast
  have w2: "\<forall>j. j \<le> i \<and> i < j + w \<and>
               (b_high (?bars ! j) = None \<or> b_low (?bars ! j) = None \<or>
                b_close (?bars ! j) = None \<or> b_volume (?bars ! j) = None)
               \<longrightarrow> vwap_of_bars lib w ?bars ! i = NaN"
    using vwap_missing [OF i] by blast
  note c = vwap_signal_cases [of "vwap_of_bars lib w ?bars ! i" "b_close (?bars ! i)" lib thr]
  show "let bars = snd (pd ! k);
           vwap = vwap_of_bars lib w bars ! i;
           close = b_close (bars ! i);
           signal = snd (cols ! k) ! i
       in (Suc i < w \<longrightarrow> vwap = NaN) \<and>
          (\<forall>j. j \<le> i \<and> i < j + w \<and>
               (b_high (bars ! j) = None \<or> b_low (bars ! j) = None \<or>
                b_close (bars ! j) = None \<or> b_volume (bars ! j) = None)
               \<longrightarrow> vwap = NaN) \<and>
          (vwap \<in> {NaN, PInf, MInf} \<or> close = None \<longrightarrow> signal = 0) \<and>
          (vwap \<in> {Fin 0, NegZero} \<and> close = Some 0 \<longrightarrow> signal = 0) \<and>
          (\<forall>c. vwap = Fin 0 \<and> close = Some c \<and> 0 < c \<longrightarrow> signal = - 1)"
    unfolding Let_def n using w1 w2 c by blast
qed

theorem vwap_undefined_signal_witness:
  "vwap_generate_signals exact_library 2 (1 / 100)
     [(''BTC/USDT'', [flat_bar (Some 2) (Some 1), flat_bar (Some 1) (Some 1),
        flat_bar None (Some 1), flat_bar (Some 1) (Some 1)])]
     = Inr [(''BTC/USDT'', [0, 1, 0, 0])] \<and>
   (0::nat) < length [(''BTC/USDT'', [flat_bar (Some 2) (Some 1), flat_bar (Some 1) (Some 1),
        flat_bar None (Some 1), flat_bar (Some 1) (Some 1)])] \<and>
   (3::nat) < length [flat_bar (Some 2) (Some 1), flat_bar (Some 1) (Some 1),
      flat_bar None (Some 1), flat_bar (Some 1) (Some 1)] \<and>
   b_close ([flat_bar (Some 2) (Some 1), flat_bar (Some 1) (Some 1), flat_bar None (Some 1),
      flat_bar (Some 1) (Some 1)] ! 2) = None \<and>
   vwap_of_bars exact_library 2 [flat_bar (Some 2) (Some 1), flat_bar (Some 1) (Some 1),
      flat_bar None (Some 1), flat_bar (Some 1) (Some 1)] ! 3 = NaN \<and>
   snd ([(''BTC/USDT'', [0, 1, 0, 0 :: int])] ! 0) ! 3 = 0"
proof -
  let ?B = "[flat_bar (Some 2) (Some 1), flat_bar (Some 1) (Some 1), flat_bar None (Some 1),
      flat_bar (Some 1) (Some 1)]"
  let ?pd = "[(''BTC/USDT'', ?B)]"
  let ?cols = "[(''BTC/USDT'', [0, 1, 0, 0 :: int])]"
  have h: "vwap_generate_signals exact_library 2 (1 / 100) ?pd = Inr ?cols" by code_simp
  have k: "(0::nat) < length ?pd" by simp
  have l: "(3::nat) < length ?B" by simp
  have l': "(3::nat) < length (snd (?pd ! 0))" by simp
  have m: "b_close (?B ! 2) = None" by (simp add: flat_bar_def)
  have j: "(2::nat) \<le> 3 \<and> (3::nat) < 2 + 2" by simp
  have b: "snd (?pd ! 0) = ?B" by simp
  have pre: "vwap_generate_signals exact_library 2 (1 / 100) ?pd = Inr ?cols \<and>
      0 < length ?pd \<and> 3 < length (snd (?pd ! 0))"
    using h k l' by blast
  note t = vwap_undefined_signal [of exact_library 2 "1 / 100" ?pd, THEN conjunct2,
      rule_format, of ?cols 0 3, OF pre]
  from t
  have r: "(\<forall>j. j \<le> 3 \<and> 3 < j + 2 \<and>
           (b_high (?B ! j) = None \<or> b_low (?B ! j) = None \<or>
            b_close (?B ! j) = None \<or> b_volume (?B ! j) = None)
           \<longrightarrow> vwap_of_bars exact_library 2 ?B ! 3 = NaN) \<and>
      (vwap_of_bars exact_library 2 ?B ! 3 \<in> {NaN, PInf, MInf} \<or> b_close (?B ! 3) = None
         \<longrightarrow> snd (?cols ! 0) ! 3 = 0)"
    unfolding Let_def b by blast
  from r m j have v: "vwap_of_bars exact_library 2 ?B ! 3 = NaN" by blast
  with r have s: "snd (?cols ! 0) ! 3 = 0" by blast
  show ?thesis
    by (intro conjI) (rule h k l m v s)+
qed

text \<open>
  Claim C4 as stated fails: with a window of 2, a first bar of price 0 and volume 1 and a
  second bar of price 1 and volume 0, the VWAP at the second bar is 0, the deviation is
  1/0 = +infinity, and the signal is -1 instead of 0.  Every intermediate result is a
  floating-point number, so the exact kernel is the library's here.
\<close>

theorem vwap_zero_counterexample:
  "vwap_of_bars exact_library 2 [flat_bar (Some 0) (Some 1), flat_bar (Some 1) (Some 0)] ! 1
     = Fin 0 \<and>
   vwap_signals_pair exact_library 2 (1 / 100)
     [flat_bar (Some 0) (Some 1), flat_bar (Some 1) (Some 0)] = Inr [0, - 1] \<and>
   vwap_generate_signals exact_library 2 (1 / 100)
     [(''BTC/USDT'', [flat_bar (Some 0) (Some 1), flat_bar (Some 1) (Some 0)])]
     = Inr [(''BTC/USDT'', [0, - 1])]"
  by code_simp

section \<open>Simulator transitions\<close>




lemma min_size_pos: "0 < min_size"
  by (simp add: min_size_def)




















section \<open>Profit factor\<close>

lemma sum_list_negatives_le: "sum_list (filter (\<lambda>x. x < 0) (xs::rat list)) \<le> 0"
  by (rule sum_list_nonpos) auto

lemma sum_list_negatives_neg:
  assumes "x \<in> set xs" and "x < (0::rat)"
  shows "sum_list (filter (\<lambda>x. x < 0) xs) < 0"
  using assms
proof (induction xs)
  case Nil
  then show ?case by simp
next
  case (Cons a xs)
  have le: "sum_list (filter (\<lambda>x. x < 0) xs) \<le> 0" by (rule sum_list_negatives_le)
  show ?case
  proof (cases "a < 0")
    case True
    with le show ?thesis by simp
  next
    case False
    with Cons show ?thesis by auto
  qed
qed

lemma sum_list_no_negatives:
  assumes "\<forall>x\<in>set xs. \<not> x < (0::rat)"
  shows "sum_list (filter (\<lambda>x. x < 0) xs) = 0"
proof -
  have "filter (\<lambda>x. x < 0) xs = []" using assms by (simp add: filter_empty_conv)
  then show ?thesis by simp
qed

lemma profit_factor_no_losses:
  assumes "trades \<noteq> []" and "\<forall>t\<in>set trades. \<not> pnl t < 0"
  shows "profit_factor trades = PInf"
proof -
  have "sum_list (filter (\<lambda>x. x < 0) (map pnl trades)) = 0"
    using assms(2) by (intro sum_list_no_negatives) auto
  with assms(1) show ?thesis by (simp add: profit_factor_def Let_def)
qed

lemma profit_factor_with_losses:
  assumes "t \<in> set trades" and "pnl t < 0"
  shows "sum_list (filter (\<lambda>x. x < 0) (map pnl trades)) < 0"
    and "profit_factor trades =
      Fin (sum_list (filter (\<lambda>x. 0 < x) (map pnl trades)) /
           \<bar>sum_list (filter (\<lambda>x. x < 0) (map pnl trades))\<bar>)"
proof -
  have "pnl t \<in> set (map pnl trades)" using assms(1) by simp
  then show neg: "sum_list (filter (\<lambda>x. x < 0) (map pnl trades)) < 0"
    using assms(2) by (rule sum_list_negatives_neg)
  have "trades \<noteq> []" using assms(1) by auto
  with neg show "profit_factor trades =
      Fin (sum_list (filter (\<lambda>x. 0 < x) (map pnl trades)) /
           \<bar>sum_list (filter (\<lambda>x. x < 0) (map pnl trades))\<bar>)"
    by (simp add: profit_factor_def Let_def)
qed

text \<open>
  Claim C6.  The profit factor is 0 for no trades; it is +infinity when no trade has a
  negative P&L and at least one has a positive P&L; when some trade has a negative P&L
  the sum of the negative P&L is not 0 and the profit factor is the sum of the positive
  P&L divided by the absolute value of the sum of the negative P&L.  It is never NaN, and
  \<open>calculate_profit_factor\<close> returns it whenever the readable trade records can be read.
\<close>

theorem profit_factor_spec:
  "profit_factor [] = Fin 0 \<and>
   (trades \<noteq> [] \<and> (\<forall>t\<in>set trades. \<not> pnl t < 0) \<and> (\<exists>t\<in>set trades. 0 < pnl t)
      \<longrightarrow> profit_factor trades = PInf) \<and>
   ((\<exists>t\<in>set trades. pnl t < 0) \<longrightarrow>
      sum_list (filter (\<lambda>x. x < 0) (map pnl trades)) \<noteq> 0 \<and>
      profit_factor trades =
        Fin (sum_list (filter (\<lambda>x. 0 < x) (map pnl trades)) /
             \<bar>sum_list (filter (\<lambda>x. x < 0) (map pnl trades))\<bar>)) \<and>
   profit_factor trades \<noteq> NaN \<and>
   (trades_records_readable p = Inr trades \<longrightarrow>
      calculate_profit_factor p = Inr (profit_factor trades))"
proof (intro conjI impI)
  show "profit_factor [] = Fin 0" by (simp add: profit_factor_def)
next
  assume "trades \<noteq> [] \<and> (\<forall>t\<in>set trades. \<not> pnl t < 0) \<and> (\<exists>t\<in>set trades. 0 < pnl t)"
  then show "profit_factor trades = PInf" using profit_factor_no_losses by blast
next
  assume "\<exists>t\<in>set trades. pnl t < 0"
  then obtain t where t: "t \<in> set trades" "pnl t < 0" by blast
  from profit_factor_with_losses(1) [OF t]
  show "sum_list (filter (\<lambda>x. x < 0) (map pnl trades)) \<noteq> 0" by simp
  from profit_factor_with_losses(2) [OF t]
  show "profit_factor trades =
        Fin (sum_list (filter (\<lambda>x. 0 < x) (map pnl trades)) /
             \<bar>sum_list (filter (\<lambda>x. x < 0) (map pnl trades))\<bar>)" .
next
  show "profit_factor trades \<noteq> NaN" by (simp add: profit_factor_def Let_def)
next
  assume "trades_records_readable p = Inr trades"
  then show "calculate_profit_factor p = Inr (profit_factor trades)"
    by (simp add: calculate_profit_factor_def bind_err_def)
qed

theorem profit_factor_spec_witness:
  "profit_factor
     [\<lparr>entry_idx = 0, exit_idx = 3, pnl = 6, status = Closed\<rparr>, \<lparr>entry_idx = 4, exit_idx = 5, pnl = - 2, status = Closed\<rparr>,
      \<lparr>entry_idx = 6, exit_idx = 9, pnl = - 1, status = Closed\<rparr>] = Fin 2 \<and>
   profit_factor [\<lparr>entry_idx = 0, exit_idx = 3, pnl = 6, status = Closed\<rparr>] = PInf"
  using profit_factor_spec
      [of "[\<lparr>entry_idx = 0, exit_idx = 3, pnl = 6, status = Closed\<rparr>, \<lparr>entry_idx = 4, exit_idx = 5, pnl = - 2, status = Closed\<rparr>,
            \<lparr>entry_idx = 6, exit_idx = 9, pnl = - 1, status = Closed\<rparr>]"]
    profit_factor_spec [of "[\<lparr>entry_idx = 0, exit_idx = 3, pnl = 6, status = Closed\<rparr>]"]
  by simp



section \<open>Trade duration statistics\<close>

lemma sort_scale:
  assumes "0 \<le> (c::rat)"
  shows "sort (map (\<lambda>x. x * c) xs) = map (\<lambda>x. x * c) (sort xs)"
proof (rule properties_for_sort)
  show "mset (map (\<lambda>x. x * c) (sort xs)) = mset (map (\<lambda>x. x * c) xs)"
    by simp
  have "sorted_wrt (\<lambda>x y. x * c \<le> y * c) (sort xs)"
    by (rule sorted_wrt_mono_rel [of _ "(\<le>)"])
       (use assms in \<open>auto simp: mult_right_mono\<close>)
  then show "sorted (map (\<lambda>x. x * c) (sort xs))"
    by (simp add: sorted_map)
qed

lemma median_scale:
  assumes "0 \<le> (c::rat)" and "xs \<noteq> []"
  shows "median (map (\<lambda>x. x * c) xs) = median xs * c"
proof -
  have n: "0 < length xs" using assms(2) by simp
  have i1: "length xs div 2 < length (sort xs)" using n by simp
  from i1 have i2: "length xs div 2 - 1 < length (sort xs)" by linarith
  show ?thesis
    unfolding median_def Let_def sort_scale [OF assms(1)]
    using i1 i2 by (simp add: algebra_simps add_divide_distrib)
qed

lemma mean_scale: "mean (map (\<lambda>x. x * c) xs) = mean xs * c"
  by (simp add: mean_def sum_list_mult_const)

lemma max_scale:
  assumes "0 \<le> (c::rat)"
  shows "fold max (map (\<lambda>x. x * c) xs) (x * c) = Max (set (x # xs)) * c"
proof -
  have m: "mono (\<lambda>x. x * c)"
    using assms by (simp add: mono_def mult_right_mono)
  have "fold max (map (\<lambda>x. x * c) xs) (x * c) = Max (set (map (\<lambda>x. x * c) (x # xs)))"
    using Max.set_eq_fold [of "x * c" "map (\<lambda>x. x * c) xs"] by simp
  also have "\<dots> = Max ((\<lambda>x. x * c) ` set (x # xs))" by simp
  also have "\<dots> = Max (set (x # xs)) * c"
    using mono_Max_commute [OF m, of "set (x # xs)"] by simp
  finally show ?thesis .
qed

lemma min_scale:
  assumes "0 \<le> (c::rat)"
  shows "fold min (map (\<lambda>x. x * c) xs) (x * c) = Min (set (x # xs)) * c"
proof -
  have m: "mono (\<lambda>x. x * c)"
    using assms by (simp add: mono_def mult_right_mono)
  have "fold min (map (\<lambda>x. x * c) xs) (x * c) = Min (set (map (\<lambda>x. x * c) (x # xs)))"
    using Min.set_eq_fold [of "x * c" "map (\<lambda>x. x * c) xs"] by simp
  also have "\<dots> = Min ((\<lambda>x. x * c) ` set (x # xs))" by simp
  also have "\<dots> = Min (set (x # xs)) * c"
    using mono_Min_commute [OF m, of "set (x # xs)"] by simp
  finally show ?thesis .
qed

lemma trade_duration_stats_refines:
  assumes "trades \<noteq> []" and "0 \<le> bar_duration idx"
  shows "trade_duration_stats idx trades = duration_stats_in_minutes (bar_duration idx) trades"
proof -
  obtain t ts where tr: "trades = t # ts" using assms(1) by (cases trades) auto
  let ?c = "bar_duration idx"
  let ?b = "\<lambda>t. (of_int (exit_idx t - entry_idx t) :: rat)"
  have ne: "map ?b (t # ts) \<noteq> []" by simp
  have avg: "sum_list (?b t * ?c # map (\<lambda>t. ?b t * ?c) ts) / of_nat (length (?b t * ?c # map (\<lambda>t. ?b t * ?c) ts))
      = mean (map ?b (t # ts)) * ?c"
    using mean_scale [of ?c "map ?b (t # ts)"] by (simp add: mean_def comp_def)
  have med: "median (?b t * ?c # map (\<lambda>t. ?b t * ?c) ts) = median (map ?b (t # ts)) * ?c"
    using median_scale [OF assms(2) ne] by (simp add: comp_def)
  have mx: "fold max (map (\<lambda>t. ?b t * ?c) ts) (?b t * ?c) = Max (set (map ?b (t # ts))) * ?c"
    using max_scale [OF assms(2), of "map ?b ts" "?b t"] by (simp add: comp_def)
  have mn: "fold min (map (\<lambda>t. ?b t * ?c) ts) (?b t * ?c) = Min (set (map ?b (t # ts))) * ?c"
    using min_scale [OF assms(2), of "map ?b ts" "?b t"] by (simp add: comp_def)
  show ?thesis
    unfolding tr trade_duration_stats.simps Let_def duration_stats_in_minutes_def
      durations_bars_def
    using avg med mx mn by simp
qed

text \<open>
  Claim C8.  An empty trade ledger gives an empty dictionary.  For a non-empty ledger the
  statistics are computed on the index of the portfolio, and when the bar interval is
  not negative they are the mean, median, maximum and minimum of exit index minus entry
  index, converted to minutes by the bar interval.  The bar interval is the difference of
  the first two timestamps in minutes; it is 1 for an index that is not time-based or
  has fewer than two entries.
\<close>

theorem trade_duration_stats_spec:
  "trade_duration_stats idx [] = [] \<and>
   (trades_records p = Inr [] \<longrightarrow> calculate_trade_duration_stats p = Inr []) \<and>
   (trades \<noteq> [] \<and> trades_records p = Inr trades \<and> wrapper_index p = Inr idx \<longrightarrow>
      calculate_trade_duration_stats p = Inr (trade_duration_stats idx trades)) \<and>
   (trades \<noteq> [] \<and> 0 \<le> bar_duration idx \<longrightarrow>
      trade_duration_stats idx trades = duration_stats_in_minutes (bar_duration idx) trades) \<and>
   bar_duration (DatetimeIndex (t0 # t1 # ts)) = (t1 - t0) / 60 \<and>
   bar_duration (DatetimeIndex [t0]) = 1 \<and>
   bar_duration (DatetimeIndex []) = 1 \<and>
   bar_duration (OtherIndex n) = 1"
proof (intro conjI impI)
  assume "trades \<noteq> [] \<and> 0 \<le> bar_duration idx"
  then show "trade_duration_stats idx trades
      = duration_stats_in_minutes (bar_duration idx) trades"
    using trade_duration_stats_refines by blast
qed (auto simp: calculate_trade_duration_stats_def bind_err_def bar_duration_def)

theorem trade_duration_stats_spec_witness:
  "[\<lparr>entry_idx = 2, exit_idx = 5, pnl = 6, status = Closed\<rparr>, \<lparr>entry_idx = 7, exit_idx = 8, pnl = - 2, status = Closed\<rparr>,
    \<lparr>entry_idx = 10, exit_idx = 20, pnl = 1, status = Closed\<rparr>, \<lparr>entry_idx = 21, exit_idx = 23, pnl = 1, status = Closed\<rparr>] \<noteq> [] \<and>
   bar_duration (DatetimeIndex [0, 300, 600]) = 5 \<and>
   trade_duration_stats (DatetimeIndex [0, 300, 600])
     [\<lparr>entry_idx = 2, exit_idx = 5, pnl = 6, status = Closed\<rparr>, \<lparr>entry_idx = 7, exit_idx = 8, pnl = - 2, status = Closed\<rparr>,
      \<lparr>entry_idx = 10, exit_idx = 20, pnl = 1, status = Closed\<rparr>, \<lparr>entry_idx = 21, exit_idx = 23, pnl = 1, status = Closed\<rparr>]
     = [(''avg_trade_duration'', MFloat (Fin 20)),
        (''median_trade_duration'', MFloat (Fin (25 / 2))),
        (''max_trade_duration'', MFloat (Fin 50)),
        (''min_trade_duration'', MFloat (Fin 5))] \<and>
   duration_stats_in_minutes 5
     [\<lparr>entry_idx = 2, exit_idx = 5, pnl = 6, status = Closed\<rparr>, \<lparr>entry_idx = 7, exit_idx = 8, pnl = - 2, status = Closed\<rparr>,
      \<lparr>entry_idx = 10, exit_idx = 20, pnl = 1, status = Closed\<rparr>, \<lparr>entry_idx = 21, exit_idx = 23, pnl = 1, status = Closed\<rparr>]
     = [(''avg_trade_duration'', MFloat (Fin 20)),
        (''median_trade_duration'', MFloat (Fin (25 / 2))),
        (''max_trade_duration'', MFloat (Fin 50)),
        (''min_trade_duration'', MFloat (Fin 5))]"
proof -
  let ?T = "[\<lparr>entry_idx = 2, exit_idx = 5, pnl = 6, status = Closed\<rparr>, \<lparr>entry_idx = 7, exit_idx = 8, pnl = - 2, status = Closed\<rparr>,
      \<lparr>entry_idx = 10, exit_idx = 20, pnl = 1, status = Closed\<rparr>, \<lparr>entry_idx = 21, exit_idx = 23, pnl = (1::rat), status = Closed\<rparr>]"
  have b: "bar_duration (DatetimeIndex [0, 300, 600]) = 5"
    by (simp add: bar_duration_def)
  have e: "trade_duration_stats (DatetimeIndex [0, 300, 600]) ?T
     = [(''avg_trade_duration'', MFloat (Fin 20)),
        (''median_trade_duration'', MFloat (Fin (25 / 2))),
        (''max_trade_duration'', MFloat (Fin 50)),
        (''min_trade_duration'', MFloat (Fin 5))]"
    by code_simp
  have ne: "?T \<noteq> []" by simp
  from trade_duration_stats_spec [of "DatetimeIndex [0, 300, 600]" _ ?T] ne b
  have r: "trade_duration_stats (DatetimeIndex [0, 300, 600]) ?T = duration_stats_in_minutes 5 ?T"
    by simp
  have d: "duration_stats_in_minutes 5 ?T
     = [(''avg_trade_duration'', MFloat (Fin 20)),
        (''median_trade_duration'', MFloat (Fin (25 / 2))),
        (''max_trade_duration'', MFloat (Fin 50)),
        (''min_trade_duration'', MFloat (Fin 5))]"
    unfolding r [symmetric] by (rule e)
  show ?thesis
    by (intro conjI) (rule ne b e d)+
qed

section \<open>Entries of the metrics record\<close>

lemma map_of_dict_set:
  "map_of (dict_set k v d) k' = (if k' = k then Some v else map_of d k')"
  by (induction d) auto

lemma map_of_dict_update_other:
  assumes "k \<notin> fst ` set new"
  shows "map_of (dict_update d new) k = map_of d k"
  using assms
proof (induction new arbitrary: d)
  case Nil
  then show ?case by (simp add: dict_update_def)
next
  case (Cons a new)
  obtain k' v' where a: "a = (k', v')" by (cases a)
  have "map_of (dict_update (dict_set k' v' d) new) k = map_of (dict_set k' v' d) k"
    using Cons by simp
  moreover have "k \<noteq> k'" using Cons.prems a by auto
  ultimately show ?case
    by (simp add: dict_update_def a map_of_dict_set)
qed

lemma trade_duration_stats_keys:
  "fst ` set (trade_duration_stats idx trades) \<subseteq>
     {''avg_trade_duration'', ''median_trade_duration'', ''max_trade_duration'',
      ''min_trade_duration''}"
  by (cases trades) (simp_all add: Let_def)

lemma calculate_trade_duration_stats_keys:
  assumes "calculate_trade_duration_stats p = Inr stats"
  shows "fst ` set stats \<subseteq>
     {''avg_trade_duration'', ''median_trade_duration'', ''max_trade_duration'',
      ''min_trade_duration''}"
proof -
  from assms have "stats = [] \<or> (\<exists>idx trades. stats = trade_duration_stats idx trades)"
    by (auto simp: calculate_trade_duration_stats_def bind_err_def
        split: sum.splits if_splits)
  then show ?thesis using trade_duration_stats_keys by auto
qed

lemma metrics_try_base:
  assumes "metrics_try p = Inr m" and "trades_records p = Inr trades"
  shows "map_of m ''win_rate'' = Some (MFloat (Fin (win_rate trades)))"
    and "map_of m ''total_trades'' = Some (MInt (int (length trades)))"
    and "map_of m ''exposure_time'' = Some (MFloat (calculate_exposure p))"
proof -
  from assms obtain tr sr md stats pf where
    st: "calculate_trade_duration_stats p = Inr stats"
    and m: "m = dict_update (dict_update
             [(''total_return'', MFloat tr),
              (''sharpe_ratio'', MFloat sr),
              (''max_drawdown'', MFloat md),
              (''win_rate'', MFloat (Fin (win_rate trades))),
              (''total_trades'', MInt (int (length trades))),
              (''exposure_time'', MFloat (calculate_exposure p))] stats)
             [(''profit_factor'', MFloat pf)]"
    by (auto simp: metrics_try_def bind_err_def Let_def split: sum.splits)
  have k1: "''win_rate'' \<notin> fst ` set stats" and k2: "''total_trades'' \<notin> fst ` set stats"
    and k3: "''exposure_time'' \<notin> fst ` set stats"
    using calculate_trade_duration_stats_keys [OF st] by auto
  show "map_of m ''win_rate'' = Some (MFloat (Fin (win_rate trades)))"
    unfolding m using k1 by (simp add: map_of_dict_update_other)
  show "map_of m ''total_trades'' = Some (MInt (int (length trades)))"
    unfolding m using k2 by (simp add: map_of_dict_update_other)
  show "map_of m ''exposure_time'' = Some (MFloat (calculate_exposure p))"
    unfolding m using k3 by (simp add: map_of_dict_update_other)
qed

lemma metrics_try_exposure:
  assumes "metrics_try p = Inr m"
  shows "map_of m ''exposure_time'' = Some (MFloat (calculate_exposure p))"
proof -
  from assms obtain trades where "trades_records p = Inr trades"
    by (cases "trades_records p") (simp_all add: metrics_try_def bind_err_def)
  with assms show ?thesis by (rule metrics_try_base(3))
qed

lemma calculate_metrics_succeeds:
  assumes "metrics_try p = Inr m"
  shows "calculate_metrics p = m"
  using assms by (simp add: calculate_metrics_def)

lemma calculate_exposure_handled:
  "(isl (positions_records p) \<longrightarrow> calculate_exposure p = Fin 0) \<and>
   (positions_records p = Inr [] \<longrightarrow> calculate_exposure p = Fin 0) \<and>
   (isl (orders_len p) \<longrightarrow> calculate_exposure p = Fin 0)"
  by (cases "positions_records p"; cases "orders_len p")
     (simp_all add: calculate_exposure_def)

section \<open>Failed metrics computation\<close>

lemma bind_err_isl: "isl (bind_err r f) \<longleftrightarrow> isl r \<or> (\<exists>x. r = Inr x \<and> isl (f x))"
  by (cases r) (simp_all add: bind_err_def)

lemma calculate_profit_factor_isl:
  "isl (calculate_profit_factor p) \<longleftrightarrow> isl (trades_records_readable p)"
  by (simp add: calculate_profit_factor_def bind_err_isl)

lemma calculate_trade_duration_stats_isl:
  "isl (calculate_trade_duration_stats p) \<longleftrightarrow>
     isl (trades_records p) \<or>
     (\<exists>ts. trades_records p = Inr ts \<and> ts \<noteq> [] \<and> isl (wrapper_index p))"
  by (auto simp: calculate_trade_duration_stats_def bind_err_isl)

lemma metrics_try_isl:
  "isl (metrics_try p) \<longleftrightarrow>
     isl (trades_records p) \<or> isl (total_return p) \<or> isl (sharpe_ratio p) \<or>
     isl (max_drawdown p) \<or>
     (\<exists>ts. trades_records p = Inr ts \<and> ts \<noteq> [] \<and> isl (wrapper_index p)) \<or>
     isl (trades_records_readable p)"
proof (cases "trades_records p")
  case (Inl e)
  then show ?thesis by (simp add: metrics_try_def bind_err_def)
next
  case tr: (Inr ts)
  show ?thesis
  proof (cases "total_return p")
    case (Inl e)
    then show ?thesis using tr by (simp add: metrics_try_def bind_err_def)
  next
    case r: (Inr a)
    show ?thesis
    proof (cases "sharpe_ratio p")
      case (Inl e)
      then show ?thesis using tr r by (simp add: metrics_try_def bind_err_def)
    next
      case s: (Inr b)
      show ?thesis
      proof (cases "max_drawdown p")
        case (Inl e)
        then show ?thesis using tr r s by (simp add: metrics_try_def bind_err_def)
      next
        case m: (Inr c)
        have "isl (metrics_try p) \<longleftrightarrow>
            isl (calculate_trade_duration_stats p) \<or> isl (calculate_profit_factor p)"
          using tr r s m
          by (cases "calculate_trade_duration_stats p"; cases "calculate_profit_factor p")
             (simp_all add: metrics_try_def bind_err_def Let_def)
        then show ?thesis
          using tr r s m
          by (simp add: calculate_trade_duration_stats_isl calculate_profit_factor_isl)
      qed
    qed
  qed
qed

lemma calculate_metrics_failed:
  assumes "isl (metrics_try p)"
  shows "calculate_metrics p = placeholder_metrics"
  using assms by (cases "metrics_try p") (simp_all add: calculate_metrics_def)

lemma backtester_run_backtest_Inr:
  assumes "s_run_backtest s = Inr p"
  shows "backtester_run_backtest s = Some (dict_update (calculate_metrics p) (s_identity s), p)"
  using assms by (simp add: backtester_run_backtest_def get_metrics_def bind_err_def)

lemma backtester_run_backtest_None:
  "backtester_run_backtest s = None \<longleftrightarrow> isl (s_run_backtest s)"
  by (cases "s_run_backtest s")
     (simp_all add: backtester_run_backtest_def get_metrics_def bind_err_def)

text \<open>
  Claim C9, amended.  The metrics computation fails exactly when reading the trade
  records (through either accessor), the total return, the Sharpe ratio or the maximal
  drawdown raises, or the index cannot be read for a non-empty ledger.  Then
  \<open>calculate_metrics\<close> returns the placeholder record of zeros, and the run yields that
  record, extended by the entries of the strategy, together with the portfolio.  An
  exception in the exposure computation (reading the position records or the orders) is
  none of these failures: it makes the exposure 0, and a metrics computation that
  succeeds returns the computed record, whose \<open>exposure_time\<close> entry is the exposure.
  A run yields nothing exactly when the strategy's \<open>run_backtest\<close> raises.
\<close>

theorem failed_metrics_placeholder:
  "(isl (metrics_try p) \<longleftrightarrow>
      isl (trades_records p) \<or> isl (total_return p) \<or> isl (sharpe_ratio p) \<or>
      isl (max_drawdown p) \<or>
      (\<exists>ts. trades_records p = Inr ts \<and> ts \<noteq> [] \<and> isl (wrapper_index p)) \<or>
      isl (trades_records_readable p)) \<and>
   (isl (metrics_try p) \<longrightarrow> calculate_metrics p = placeholder_metrics) \<and>
   (s_run_backtest s = Inr p \<and> isl (metrics_try p) \<longrightarrow>
      backtester_run_backtest s = Some (dict_update placeholder_metrics (s_identity s), p)) \<and>
   (s_run_backtest s = Inr p \<longrightarrow>
      backtester_run_backtest s = Some (dict_update (calculate_metrics p) (s_identity s), p)) \<and>
   (backtester_run_backtest s = None \<longleftrightarrow> isl (s_run_backtest s)) \<and>
   (isl (positions_records p) \<or> isl (orders_len p) \<longrightarrow> calculate_exposure p = Fin 0) \<and>
   (metrics_try p = Inr m \<longrightarrow>
      calculate_metrics p = m \<and>
      map_of (calculate_metrics p) ''exposure_time'' = Some (MFloat (calculate_exposure p)))"
proof (intro conjI impI)
  show "isl (metrics_try p) \<longleftrightarrow>
      isl (trades_records p) \<or> isl (total_return p) \<or> isl (sharpe_ratio p) \<or>
      isl (max_drawdown p) \<or>
      (\<exists>ts. trades_records p = Inr ts \<and> ts \<noteq> [] \<and> isl (wrapper_index p)) \<or>
      isl (trades_records_readable p)"
    by (rule metrics_try_isl)
next
  assume "isl (metrics_try p)"
  then show "calculate_metrics p = placeholder_metrics" by (rule calculate_metrics_failed)
next
  assume a: "s_run_backtest s = Inr p \<and> isl (metrics_try p)"
  then have "calculate_metrics p = placeholder_metrics" using calculate_metrics_failed by blast
  with a show "backtester_run_backtest s
      = Some (dict_update placeholder_metrics (s_identity s), p)"
    using backtester_run_backtest_Inr [of s p] by simp
next
  assume "s_run_backtest s = Inr p"
  then show "backtester_run_backtest s
      = Some (dict_update (calculate_metrics p) (s_identity s), p)"
    by (rule backtester_run_backtest_Inr)
next
  show "backtester_run_backtest s = None \<longleftrightarrow> isl (s_run_backtest s)"
    by (rule backtester_run_backtest_None)
next
  assume "isl (positions_records p) \<or> isl (orders_len p)"
  then show "calculate_exposure p = Fin 0"
    using calculate_exposure_handled [of p] by blast
next
  assume a: "metrics_try p = Inr m"
  then show c: "calculate_metrics p = m" by (rule calculate_metrics_succeeds)
  from a show "map_of (calculate_metrics p) ''exposure_time''
      = Some (MFloat (calculate_exposure p))"
    unfolding c by (rule metrics_try_exposure)
qed

text \<open>
  Claim C9 as stated fails: a run whose portfolio raises in \<open>sharpe_ratio\<close> yields a
  metrics record, the placeholder of zeros with the strategy's name, not nothing.
\<close>

theorem failed_metrics_counterexample:
  "backtester_run_backtest
     \<lparr>s_run_backtest = Inr
        \<lparr>trades_records = Inr [\<lparr>entry_idx = 2, exit_idx = 5, pnl = 6, status = Closed\<rparr>],
         trades_records_readable =
           Inr [\<lparr>entry_idx = 2, exit_idx = 5, pnl = 6, status = Closed\<rparr>],
         total_return = Inr (Fin (3 / 50)),
         sharpe_ratio = Inl LibraryError,
         max_drawdown = Inr (Fin 0),
         positions_records = Inr [\<lparr>entry_idx = 2, exit_idx = 5, pnl = 6, status = Closed\<rparr>],
         orders_len = Inr 2,
         wrapper_index = Inr (DatetimeIndex [0, 60, 120])\<rparr>,
      s_identity = [(''strategy'', MStr ''SMA Crossover'')]\<rparr>
   = Some
      ([(''total_return'', MFloat (Fin 0)),
        (''sharpe_ratio'', MFloat (Fin 0)),
        (''max_drawdown'', MFloat (Fin 0)),
        (''win_rate'', MFloat (Fin 0)),
        (''total_trades'', MInt 0),
        (''exposure_time'', MFloat (Fin 0)),
        (''avg_trade_duration'', MFloat (Fin 0)),
        (''median_trade_duration'', MFloat (Fin 0)),
        (''max_trade_duration'', MFloat (Fin 0)),
        (''min_trade_duration'', MFloat (Fin 0)),
        (''profit_factor'', MFloat (Fin 0)),
        (''strategy'', MStr ''SMA Crossover'')],
       \<lparr>trades_records = Inr [\<lparr>entry_idx = 2, exit_idx = 5, pnl = 6, status = Closed\<rparr>],
         trades_records_readable =
           Inr [\<lparr>entry_idx = 2, exit_idx = 5, pnl = 6, status = Closed\<rparr>],
        total_return = Inr (Fin (3 / 50)),
        sharpe_ratio = Inl LibraryError,
        max_drawdown = Inr (Fin 0),
        positions_records = Inr [\<lparr>entry_idx = 2, exit_idx = 5, pnl = 6, status = Closed\<rparr>],
        orders_len = Inr 2,
        wrapper_index = Inr (DatetimeIndex [0, 60, 120])\<rparr>)"
  by code_simp

theorem failed_metrics_placeholder_witness:
  "s_run_backtest
     \<lparr>s_run_backtest = Inr
        \<lparr>trades_records = Inr [], trades_records_readable = Inr [],
         total_return = Inl LibraryError,
         sharpe_ratio = Inr (Fin 0), max_drawdown = Inr (Fin 0),
         positions_records = Inr [], orders_len = Inr 0,
         wrapper_index = Inr (OtherIndex 0)\<rparr>,
      s_identity = []\<rparr>
    = Inr \<lparr>trades_records = Inr [], trades_records_readable = Inr [],
         total_return = Inl LibraryError,
         sharpe_ratio = Inr (Fin 0), max_drawdown = Inr (Fin 0),
         positions_records = Inr [], orders_len = Inr 0,
         wrapper_index = Inr (OtherIndex 0)\<rparr> \<and>
   isl (metrics_try
     \<lparr>trades_records = Inr [], trades_records_readable = Inr [],
         total_return = Inl LibraryError,
      sharpe_ratio = Inr (Fin 0), max_drawdown = Inr (Fin 0),
      positions_records = Inr [], orders_len = Inr 0,
      wrapper_index = Inr (OtherIndex 0)\<rparr>) \<and>
   backtester_run_backtest
     \<lparr>s_run_backtest = Inr
        \<lparr>trades_records = Inr [], trades_records_readable = Inr [],
         total_return = Inl LibraryError,
         sharpe_ratio = Inr (Fin 0), max_drawdown = Inr (Fin 0),
         positions_records = Inr [], orders_len = Inr 0,
         wrapper_index = Inr (OtherIndex 0)\<rparr>,
      s_identity = []\<rparr>
    = Some (placeholder_metrics,
        \<lparr>trades_records = Inr [], trades_records_readable = Inr [],
         total_return = Inl LibraryError,
         sharpe_ratio = Inr (Fin 0), max_drawdown = Inr (Fin 0),
         positions_records = Inr [], orders_len = Inr 0,
         wrapper_index = Inr (OtherIndex 0)\<rparr>) \<and>
   isl (s_run_backtest \<lparr>s_run_backtest = Inl ValueError, s_identity = []\<rparr>) \<and>
   backtester_run_backtest \<lparr>s_run_backtest = Inl ValueError, s_identity = []\<rparr> = None \<and>
   isl (positions_records
     \<lparr>trades_records = Inr [\<lparr>entry_idx = 2, exit_idx = 5, pnl = 6, status = Closed\<rparr>],
      trades_records_readable = Inr [\<lparr>entry_idx = 2, exit_idx = 5, pnl = 6, status = Closed\<rparr>],
      total_return = Inr (Fin (3 / 50)), sharpe_ratio = Inr (Fin 1),
      max_drawdown = Inr (Fin 0),
      positions_records = Inl LibraryError, orders_len = Inr 2,
      wrapper_index = Inr (DatetimeIndex [0, 60, 120])\<rparr>) \<and>
   \<not> isl (metrics_try
     \<lparr>trades_records = Inr [\<lparr>entry_idx = 2, exit_idx = 5, pnl = 6, status = Closed\<rparr>],
      trades_records_readable = Inr [\<lparr>entry_idx = 2, exit_idx = 5, pnl = 6, status = Closed\<rparr>],
      total_return = Inr (Fin (3 / 50)), sharpe_ratio = Inr (Fin 1),
      max_drawdown = Inr (Fin 0),
      positions_records = Inl LibraryError, orders_len = Inr 2,
      wrapper_index = Inr (DatetimeIndex [0, 60, 120])\<rparr>) \<and>
   map_of (calculate_metrics
     \<lparr>trades_records = Inr [\<lparr>entry_idx = 2, exit_idx = 5, pnl = 6, status = Closed\<rparr>],
      trades_records_readable = Inr [\<lparr>entry_idx = 2, exit_idx = 5, pnl = 6, status = Closed\<rparr>],
      total_return = Inr (Fin (3 / 50)), sharpe_ratio = Inr (Fin 1),
      max_drawdown = Inr (Fin 0),
      positions_records = Inl LibraryError, orders_len = Inr 2,
      wrapper_index = Inr (DatetimeIndex [0, 60, 120])\<rparr>) ''exposure_time''
    = Some (MFloat (Fin 0))"
proof -
  let ?p = "\<lparr>trades_records = Inr [], trades_records_readable = Inr [],
         total_return = Inl LibraryError,
         sharpe_ratio = Inr (Fin 0), max_drawdown = Inr (Fin 0),
         positions_records = Inr [], orders_len = Inr 0,
         wrapper_index = Inr (OtherIndex 0)\<rparr>"
  let ?s = "\<lparr>s_run_backtest = Inr ?p, s_identity = []\<rparr>"
  let ?f = "\<lparr>s_run_backtest = Inl ValueError, s_identity = []\<rparr>"
  let ?T = "[\<lparr>entry_idx = 2, exit_idx = 5, pnl = (6::rat), status = Closed\<rparr>]"
  let ?q = "\<lparr>trades_records = Inr ?T, trades_records_readable = Inr ?T,
      total_return = Inr (Fin (3 / 50)), sharpe_ratio = Inr (Fin 1),
      max_drawdown = Inr (Fin 0),
      positions_records = Inl LibraryError, orders_len = Inr 2,
      wrapper_index = Inr (DatetimeIndex [0, 60, 120])\<rparr>"
  have a: "s_run_backtest ?s = Inr ?p" by simp
  have b: "isl (metrics_try ?p)"
    using failed_metrics_placeholder [of ?p ?s] by simp
  have c: "backtester_run_backtest ?s = Some (placeholder_metrics, ?p)"
    using failed_metrics_placeholder [of ?p ?s] a b by (simp add: dict_update_def)
  have d: "isl (s_run_backtest ?f)" by simp
  have e: "backtester_run_backtest ?f = None"
    using failed_metrics_placeholder [of ?p ?f] d by simp
  have f: "isl (positions_records ?q)" by simp
  have g: "\<not> isl (metrics_try ?q)"
    using failed_metrics_placeholder [of ?q ?s] by simp
  then obtain m where m: "metrics_try ?q = Inr m"
    by (cases "metrics_try ?q") simp_all
  have x: "calculate_exposure ?q = Fin 0"
    using failed_metrics_placeholder [of ?q ?s] f by blast
  have "map_of (calculate_metrics ?q) ''exposure_time'' = Some (MFloat (calculate_exposure ?q))"
    using failed_metrics_placeholder [of ?q ?s m] m by blast
  then have h: "map_of (calculate_metrics ?q) ''exposure_time'' = Some (MFloat (Fin 0))"
    by (simp only: x)
  show ?thesis
    by (intro conjI) (rule a b c d e f g h)+
qed

section \<open>Win rate\<close>

lemma win_rate_any_status:
  "win_rate (map (\<lambda>t. t\<lparr>status := s\<rparr>) trades) = win_rate trades"
  by (simp add: win_rate_def filter_map comp_def)

text \<open>
  Claim C7, amended.  The win rate is 0 for no trade records; otherwise it is the number
  of trade records with a positive P&L divided by the number of all trade records,
  whatever their status: a trade still open at the end of the data counts like a closed
  one.  It lies between 0 and 1.  Whenever the metrics computation succeeds,
  \<open>calculate_metrics\<close> returns the computed record, whose \<open>win_rate\<close> entry is this
  value and whose \<open>total_trades\<close> entry is the number of trade records.
\<close>

theorem win_rate_spec:
  "win_rate [] = 0 \<and>
   (trades \<noteq> [] \<longrightarrow>
      win_rate trades =
        of_nat (card {i. i < length trades \<and> 0 < pnl (trades ! i)}) / of_nat (length trades)) \<and>
   win_rate (map (\<lambda>t. t\<lparr>status := Closed\<rparr>) trades) = win_rate trades \<and>
   0 \<le> win_rate trades \<and> win_rate trades \<le> 1 \<and>
   (metrics_try p = Inr m \<and> trades_records p = Inr trades \<longrightarrow>
      calculate_metrics p = m \<and>
      map_of (calculate_metrics p) ''win_rate'' = Some (MFloat (Fin (win_rate trades))) \<and>
      map_of (calculate_metrics p) ''total_trades'' = Some (MInt (int (length trades))))"
proof (intro conjI impI)
  show "win_rate [] = 0" by (simp add: win_rate_def)
next
  assume "trades \<noteq> []"
  then show "win_rate trades =
        of_nat (card {i. i < length trades \<and> 0 < pnl (trades ! i)}) / of_nat (length trades)"
    by (simp add: win_rate_def length_filter_conv_card)
next
  show "win_rate (map (\<lambda>t. t\<lparr>status := Closed\<rparr>) trades) = win_rate trades"
    by (rule win_rate_any_status)
next
  show "0 \<le> win_rate trades" by (simp add: win_rate_def)
next
  have "length (filter (\<lambda>t. 0 < pnl t) trades) \<le> length trades" by simp
  then have "(of_nat (length (filter (\<lambda>t. 0 < pnl t) trades)) :: rat) \<le> of_nat (length trades)"
    by (simp only: of_nat_le_iff)
  then show "win_rate trades \<le> 1"
    by (simp add: win_rate_def divide_le_eq_1)
next
  assume a: "metrics_try p = Inr m \<and> trades_records p = Inr trades"
  then show c: "calculate_metrics p = m" using calculate_metrics_succeeds by blast
  from a show "map_of (calculate_metrics p) ''win_rate'' = Some (MFloat (Fin (win_rate trades)))"
    unfolding c using metrics_try_base(1) by blast
  from a show "map_of (calculate_metrics p) ''total_trades''
      = Some (MInt (int (length trades)))"
    unfolding c using metrics_try_base(2) by blast
qed

theorem win_rate_spec_witness:
  "trades_records
     \<lparr>trades_records =
        Inr [\<lparr>entry_idx = 0, exit_idx = 3, pnl = 6, status = Closed\<rparr>,
             \<lparr>entry_idx = 4, exit_idx = 5, pnl = - 2, status = Closed\<rparr>,
             \<lparr>entry_idx = 6, exit_idx = 9, pnl = 0, status = Closed\<rparr>,
             \<lparr>entry_idx = 10, exit_idx = 11, pnl = 1, status = Open\<rparr>],
      trades_records_readable =
        Inr [\<lparr>entry_idx = 0, exit_idx = 3, pnl = 6, status = Closed\<rparr>,
             \<lparr>entry_idx = 4, exit_idx = 5, pnl = - 2, status = Closed\<rparr>,
             \<lparr>entry_idx = 6, exit_idx = 9, pnl = 0, status = Closed\<rparr>,
             \<lparr>entry_idx = 10, exit_idx = 11, pnl = 1, status = Open\<rparr>],
      total_return = Inr (Fin (1 / 20)), sharpe_ratio = Inr (Fin 1),
      max_drawdown = Inr (Fin (- 1 / 50)),
      positions_records = Inr [], orders_len = Inr 7,
      wrapper_index = Inr (DatetimeIndex [0, 60, 120])\<rparr>
    = Inr [\<lparr>entry_idx = 0, exit_idx = 3, pnl = 6, status = Closed\<rparr>,
           \<lparr>entry_idx = 4, exit_idx = 5, pnl = - 2, status = Closed\<rparr>,
           \<lparr>entry_idx = 6, exit_idx = 9, pnl = 0, status = Closed\<rparr>,
           \<lparr>entry_idx = 10, exit_idx = 11, pnl = 1, status = Open\<rparr>] \<and>
   win_rate
     [\<lparr>entry_idx = 0, exit_idx = 3, pnl = 6, status = Closed\<rparr>,
      \<lparr>entry_idx = 4, exit_idx = 5, pnl = - 2, status = Closed\<rparr>,
      \<lparr>entry_idx = 6, exit_idx = 9, pnl = 0, status = Closed\<rparr>,
      \<lparr>entry_idx = 10, exit_idx = 11, pnl = 1, status = Open\<rparr>] = 1 / 2 \<and>
   map_of (calculate_metrics
     \<lparr>trades_records =
        Inr [\<lparr>entry_idx = 0, exit_idx = 3, pnl = 6, status = Closed\<rparr>,
             \<lparr>entry_idx = 4, exit_idx = 5, pnl = - 2, status = Closed\<rparr>,
             \<lparr>entry_idx = 6, exit_idx = 9, pnl = 0, status = Closed\<rparr>,
             \<lparr>entry_idx = 10, exit_idx = 11, pnl = 1, status = Open\<rparr>],
      trades_records_readable =
        Inr [\<lparr>entry_idx = 0, exit_idx = 3, pnl = 6, status = Closed\<rparr>,
             \<lparr>entry_idx = 4, exit_idx = 5, pnl = - 2, status = Closed\<rparr>,
             \<lparr>entry_idx = 6, exit_idx = 9, pnl = 0, status = Closed\<rparr>,
             \<lparr>entry_idx = 10, exit_idx = 11, pnl = 1, status = Open\<rparr>],
      total_return = Inr (Fin (1 / 20)), sharpe_ratio = Inr (Fin 1),
      max_drawdown = Inr (Fin (- 1 / 50)),
      positions_records = Inr [], orders_len = Inr 7,
      wrapper_index = Inr (DatetimeIndex [0, 60, 120])\<rparr>) ''win_rate''
    = Some (MFloat (Fin (1 / 2))) \<and>
   map_of (calculate_metrics
     \<lparr>trades_records =
        Inr [\<lparr>entry_idx = 0, exit_idx = 3, pnl = 6, status = Closed\<rparr>,
             \<lparr>entry_idx = 4, exit_idx = 5, pnl = - 2, status = Closed\<rparr>,
             \<lparr>entry_idx = 6, exit_idx = 9, pnl = 0, status = Closed\<rparr>,
             \<lparr>entry_idx = 10, exit_idx = 11, pnl = 1, status = Open\<rparr>],
      trades_records_readable =
        Inr [\<lparr>entry_idx = 0, exit_idx = 3, pnl = 6, status = Closed\<rparr>,
             \<lparr>entry_idx = 4, exit_idx = 5, pnl = - 2, status = Closed\<rparr>,
             \<lparr>entry_idx = 6, exit_idx = 9, pnl = 0, status = Closed\<rparr>,
             \<lparr>entry_idx = 10, exit_idx = 11, pnl = 1, status = Open\<rparr>],
      total_return = Inr (Fin (1 / 20)), sharpe_ratio = Inr (Fin 1),
      max_drawdown = Inr (Fin (- 1 / 50)),
      positions_records = Inr [], orders_len = Inr 7,
      wrapper_index = Inr (DatetimeIndex [0, 60, 120])\<rparr>) ''total_trades''
    = Some (MInt 4)"
proof -
  let ?T = "[\<lparr>entry_idx = 0, exit_idx = 3, pnl = 6, status = Closed\<rparr>,
             \<lparr>entry_idx = 4, exit_idx = 5, pnl = - 2, status = Closed\<rparr>,
             \<lparr>entry_idx = 6, exit_idx = 9, pnl = 0, status = Closed\<rparr>,
             \<lparr>entry_idx = 10, exit_idx = 11, pnl = (1::rat), status = Open\<rparr>]"
  let ?P = "\<lparr>trades_records = Inr ?T, trades_records_readable = Inr ?T,
      total_return = Inr (Fin (1 / 20)), sharpe_ratio = Inr (Fin 1),
      max_drawdown = Inr (Fin (- 1 / 50)),
      positions_records = Inr [], orders_len = Inr 7,
      wrapper_index = Inr (DatetimeIndex [0, 60, 120])\<rparr>"
  have t: "trades_records ?P = Inr ?T" by simp
  have w: "win_rate ?T = 1 / 2" by (simp add: win_rate_def)
  obtain m where m: "metrics_try ?P = Inr m"
    by (simp add: metrics_try_def bind_err_def calculate_trade_duration_stats_def
        calculate_profit_factor_def Let_def)
  have pre: "metrics_try ?P = Inr m \<and> trades_records ?P = Inr ?T"
    using m t by blast
  note r = win_rate_spec [of ?T ?P m, THEN conjunct2, THEN conjunct2, THEN conjunct2,
      THEN conjunct2, THEN conjunct2, rule_format, OF pre]
  have len: "int (length ?T) = 4" by simp
  from r have "map_of (calculate_metrics ?P) ''win_rate'' = Some (MFloat (Fin (win_rate ?T)))"
    by blast
  then have a: "map_of (calculate_metrics ?P) ''win_rate'' = Some (MFloat (Fin (1 / 2)))"
    by (simp only: w)
  from r have "map_of (calculate_metrics ?P) ''total_trades'' = Some (MInt (int (length ?T)))"
    by blast
  then have b: "map_of (calculate_metrics ?P) ''total_trades'' = Some (MInt 4)"
    by (simp only: len)
  show ?thesis
    by (intro conjI) (rule t w a b)+
qed

text \<open>
  Claim C7 as stated fails: with a single trade record that is still open at the end of
  the data and has a positive P&L there is no closed trade, yet the win rate is 1 and the
  number of trades is 1, also in the record that \<open>calculate_metrics\<close> returns.
\<close>

theorem open_trade_counterexample:
  "filter (\<lambda>t. status t = Closed)
     [\<lparr>entry_idx = 3, exit_idx = 9, pnl = 5, status = Open\<rparr>] = [] \<and>
   win_rate [\<lparr>entry_idx = 3, exit_idx = 9, pnl = 5, status = Open\<rparr>] = 1 \<and>
   map_of (calculate_metrics
     \<lparr>trades_records = Inr [\<lparr>entry_idx = 3, exit_idx = 9, pnl = 5, status = Open\<rparr>],
      trades_records_readable = Inr [\<lparr>entry_idx = 3, exit_idx = 9, pnl = 5, status = Open\<rparr>],
      total_return = Inr (Fin (1 / 20)), sharpe_ratio = Inr (Fin 1),
      max_drawdown = Inr (Fin 0),
      positions_records = Inr [\<lparr>entry_idx = 3, exit_idx = 9, pnl = 5, status = Open\<rparr>],
      orders_len = Inr 1,
      wrapper_index = Inr (DatetimeIndex [0, 60, 120])\<rparr>) ''win_rate''
    = Some (MFloat (Fin 1)) \<and>
   map_of (calculate_metrics
     \<lparr>trades_records = Inr [\<lparr>entry_idx = 3, exit_idx = 9, pnl = 5, status = Open\<rparr>],
      trades_records_readable = Inr [\<lparr>entry_idx = 3, exit_idx = 9, pnl = 5, status = Open\<rparr>],
      total_return = Inr (Fin (1 / 20)), sharpe_ratio = Inr (Fin 1),
      max_drawdown = Inr (Fin 0),
      positions_records = Inr [\<lparr>entry_idx = 3, exit_idx = 9, pnl = 5, status = Open\<rparr>],
      orders_len = Inr 1,
      wrapper_index = Inr (DatetimeIndex [0, 60, 120])\<rparr>) ''total_trades''
    = Some (MInt 1)"
  by code_simp

end
